theory Spec2Isabelle
  imports Complex_Main
begin

section \<open>The vSphere inspector of monasca-agent\<close>

text \<open>
  A shallow embedding of \<^verbatim>\<open>monasca_agent/collector/virt/vmware/inspector.py\<close>.
  The module is Python 2 code (it iterates dictionaries with \<^verbatim>\<open>iterkeys\<close> and does not
  import \<^verbatim>\<open>division\<close> from \<^verbatim>\<open>__future__\<close>), so the operator \<^verbatim>\<open>/\<close> is the
  Python 2 one: floor division on two integers, true division as soon as one operand is
  a float.
\<close>

subsection \<open>Python values\<close>

text \<open>
  A Python number is an \<^verbatim>\<open>int\<close>/\<^verbatim>\<open>long\<close> (unbounded) or a \<^verbatim>\<open>float\<close>. A float is
  represented by the real number it denotes; the rounding of IEEE arithmetic is not
  modelled, every statement about the integer case is exact.
\<close>

datatype number = PyInt int | PyFloat real

fun num_value :: "number \<Rightarrow> real" where
  "num_value (PyInt i) = of_int i"
| "num_value (PyFloat x) = x"

datatype error =
    InstanceNotFoundException string
  | ZeroDivisionError
  | KeyError string
  | OpsError string

text \<open>Python 2 \<^verbatim>\<open>a / b\<close>.\<close>

fun py_div :: "number \<Rightarrow> number \<Rightarrow> error + number" where
  "py_div (PyInt a) (PyInt b) =
     (if b = 0 then Inl ZeroDivisionError else Inr (PyInt (a div b)))"
| "py_div x y =
     (if num_value y = 0 then Inl ZeroDivisionError
      else Inr (PyFloat (num_value x / num_value y)))"

text \<open>
  Python \<^verbatim>\<open>a * b\<close>. The product of two integers is an integer and is exact. With a
  float operand the result is a float, represented by the real product of the operands:
  neither the rounding nor the overflow of a double to \<^verbatim>\<open>inf\<close> is modelled, so for a
  float the model says which product the code forms and not its IEEE value. The
  numeric statements below are about integers only.
\<close>

fun py_mul :: "number \<Rightarrow> number \<Rightarrow> number" where
  "py_mul (PyInt a) (PyInt b) = PyInt (a * b)"
| "py_mul x y = PyFloat (num_value x * num_value y)"

text \<open>
  A dictionary from device identifiers to numbers, as an association list read through
  \<open>map_of\<close>: \<^verbatim>\<open>d.get(k, default)\<close> and \<^verbatim>\<open>d.iterkeys()\<close>, which produces every key once.
\<close>

type_synonym device_stats = "(string \<times> number) list"

definition dict_get :: "device_stats \<Rightarrow> string \<Rightarrow> number \<Rightarrow> number" where
  "dict_get d k dflt = (case map_of d k of None \<Rightarrow> dflt | Some v \<Rightarrow> v)"

definition iterkeys :: "device_stats \<Rightarrow> string list" where
  "iterkeys d = remdups (map fst d)"

text \<open>
  \<^verbatim>\<open>d[k]\<close> on the dictionary of dictionaries built by the fan-out inspections; a missing
  key raises \<^verbatim>\<open>KeyError\<close>.
\<close>

definition dict_getitem :: "(string \<rightharpoonup> device_stats) \<Rightarrow> string \<Rightarrow> error + device_stats" where
  "dict_getitem d k = (case d k of None \<Rightarrow> Inl (KeyError k) | Some v \<Rightarrow> Inr v)"

text \<open>
  A Python \<^verbatim>\<open>set\<close> of device identifiers, as a list without repetitions;
  \<^verbatim>\<open>s.update(keys)\<close> adds the keys that are not yet members. Python leaves the
  iteration order of a set unspecified: the list fixes one order, and no statement below
  depends on it.
\<close>

definition set_update :: "string list \<Rightarrow> string list \<Rightarrow> string list" where
  "set_update s ks = fold List.insert ks s"

subsection \<open>Constants of the module\<close>

definition VC_AVERAGE_MEMORY_CONSUMED_CNTR :: string where
  "VC_AVERAGE_MEMORY_CONSUMED_CNTR = ''mem:consumed:average''"

definition VC_AVERAGE_CPU_CONSUMED_CNTR :: string where
  "VC_AVERAGE_CPU_CONSUMED_CNTR = ''cpu:usage:average''"

definition VC_NETWORK_RX_COUNTER :: string where
  "VC_NETWORK_RX_COUNTER = ''net:received:average''"

definition VC_NETWORK_TX_COUNTER :: string where
  "VC_NETWORK_TX_COUNTER = ''net:transmitted:average''"

definition VC_DISK_READ_RATE_CNTR :: string where
  "VC_DISK_READ_RATE_CNTR = ''disk:read:average''"

definition VC_DISK_READ_REQUESTS_RATE_CNTR :: string where
  "VC_DISK_READ_REQUESTS_RATE_CNTR = ''disk:numberReadAveraged:average''"

definition VC_DISK_WRITE_RATE_CNTR :: string where
  "VC_DISK_WRITE_RATE_CNTR = ''disk:write:average''"

definition VC_DISK_WRITE_REQUESTS_RATE_CNTR :: string where
  "VC_DISK_WRITE_REQUESTS_RATE_CNTR = ''disk:numberWriteAveraged:average''"

text \<open>
  Modelled from the spec: \<^verbatim>\<open>oslo_utils.units.Ki\<close> is imported from a library that is not
  part of the sources; the spec gives the factor as 1024 (an integer).
\<close>

definition Ki :: number where
  "Ki = PyInt 1024"

subsection \<open>Records of the inspector interface\<close>

text \<open>
  Modelled from the spec: the named tuples of \<^verbatim>\<open>monasca_agent.collector.virt.inspector\<close>
  (\<^verbatim>\<open>CPUUtilStats\<close>, \<^verbatim>\<open>MemoryUsageStats\<close>, \<^verbatim>\<open>InterfaceRateStats\<close>, \<^verbatim>\<open>Interface\<close>,
  \<^verbatim>\<open>Disk\<close>, \<^verbatim>\<open>DiskRateStats\<close>) are declared outside the sources; their fields are the ones
  the constructor calls of the inspector name, in the order the spec lists them. A field
  set to \<^verbatim>\<open>None\<close> is \<open>None\<close>.
\<close>

record vm_instance =
  instance_id :: string

record CPUUtilStats =
  util :: number

record MemoryUsageStats =
  usage :: number

record InterfaceRateStats =
  rx_bytes_rate :: number
  tx_bytes_rate :: number

record Interface =
  name :: string
  mac :: "string option"
  fref :: "string option"
  parameters :: "(string \<times> string) list option"

record Disk =
  device :: string

record DiskRateStats =
  read_bytes_rate :: number
  read_requests_rate :: number
  write_bytes_rate :: number
  write_requests_rate :: number

subsection \<open>The collaborator \<^verbatim>\<open>self._ops\<close>\<close>

text \<open>
  Modelled from the spec: the class \<^verbatim>\<open>VsphereOperations\<close> of
  \<^verbatim>\<open>monasca_agent.collector.virt.vmware.vsphere_operations\<close> is not part of the sources.
  Its four methods are taken as parameters, with the signatures of the spec's external
  interfaces: \<^verbatim>\<open>get_vm_moid\<close> returns a managed-object id or \<^verbatim>\<open>None\<close>,
  \<^verbatim>\<open>get_perf_counter_id\<close> a counter id, \<^verbatim>\<open>query_vm_aggregate_stats\<close> a number and
  \<^verbatim>\<open>query_vm_device_stats\<close> a dictionary from device ids to numbers. The collaborator
  has a state of its own (session, caches): each method takes that state and returns the
  new one together with either the value it returns or the exception it raises. The
  duration is passed through unread.
\<close>

type_synonym duration = "int option"

record 's vsphere_ops =
  get_vm_moid :: "string \<Rightarrow> 's \<Rightarrow> (error + string option) \<times> 's"
  get_perf_counter_id :: "string \<Rightarrow> 's \<Rightarrow> (error + int) \<times> 's"
  query_vm_aggregate_stats ::
    "string \<Rightarrow> int \<Rightarrow> duration \<Rightarrow> 's \<Rightarrow> (error + number) \<times> 's"
  query_vm_device_stats ::
    "string \<Rightarrow> int \<Rightarrow> duration \<Rightarrow> 's \<Rightarrow> (error + device_stats) \<times> 's"

text \<open>The calls issued to the collaborator are recorded, in order, beside its state.\<close>

datatype call =
    GetVmMoid string
  | GetPerfCounterId string
  | QueryVmAggregateStats string int duration
  | QueryVmDeviceStats string int duration

record 's world =
  ops_state :: 's
  calls :: "call list"

type_synonym ('a, 's) action = "'s world \<Rightarrow> (error + 'a) \<times> 's world"

definition returnM :: "'a \<Rightarrow> ('a, 's) action" where
  "returnM x w = (Inr x, w)"

definition raiseM :: "error \<Rightarrow> ('a, 's) action" where
  "raiseM e w = (Inl e, w)"

text \<open>Sequencing: an exception of the first action ends the computation.\<close>

definition bindM :: "('a, 's) action \<Rightarrow> ('a \<Rightarrow> ('b, 's) action) \<Rightarrow> ('b, 's) action" where
  "bindM m f w = (case m w of (Inl e, w') \<Rightarrow> (Inl e, w') | (Inr x, w') \<Rightarrow> f x w')"

definition liftE :: "error + 'a \<Rightarrow> ('a, 's) action" where
  "liftE r w = (r, w)"

definition call_get_vm_moid :: "'s vsphere_ops \<Rightarrow> string \<Rightarrow> (string option, 's) action" where
  "call_get_vm_moid ops i w =
     (case get_vm_moid ops i (ops_state w) of
        (r, s') \<Rightarrow> (r, \<lparr>ops_state = s', calls = calls w @ [GetVmMoid i]\<rparr>))"

definition call_get_perf_counter_id :: "'s vsphere_ops \<Rightarrow> string \<Rightarrow> (int, 's) action" where
  "call_get_perf_counter_id ops c w =
     (case get_perf_counter_id ops c (ops_state w) of
        (r, s') \<Rightarrow> (r, \<lparr>ops_state = s', calls = calls w @ [GetPerfCounterId c]\<rparr>))"

definition call_query_vm_aggregate_stats ::
  "'s vsphere_ops \<Rightarrow> string \<Rightarrow> int \<Rightarrow> duration \<Rightarrow> (number, 's) action" where
  "call_query_vm_aggregate_stats ops m c d w =
     (case query_vm_aggregate_stats ops m c d (ops_state w) of
        (r, s') \<Rightarrow> (r, \<lparr>ops_state = s', calls = calls w @ [QueryVmAggregateStats m c d]\<rparr>))"

definition call_query_vm_device_stats ::
  "'s vsphere_ops \<Rightarrow> string \<Rightarrow> int \<Rightarrow> duration \<Rightarrow> (device_stats, 's) action" where
  "call_query_vm_device_stats ops m c d w =
     (case query_vm_device_stats ops m c d (ops_state w) of
        (r, s') \<Rightarrow> (r, \<lparr>ops_state = s', calls = calls w @ [QueryVmDeviceStats m c d]\<rparr>))"

subsection \<open>Aggregate inspections\<close>

text \<open>The message of the exception: \<^verbatim>\<open>'VM %s not found in VMware Vsphere' % instance.id\<close>.\<close>

definition not_found :: "vm_instance \<Rightarrow> error" where
  "not_found instance =
     InstanceNotFoundException (''VM '' @ instance_id instance @ '' not found in VMware Vsphere'')"

text \<open>\<^verbatim>\<open>inspect_cpu_util\<close>: the test is \<^verbatim>\<open>vm_moid is None\<close>.\<close>

definition inspect_cpu_util ::
  "'s vsphere_ops \<Rightarrow> vm_instance \<Rightarrow> duration \<Rightarrow> (CPUUtilStats, 's) action" where
  "inspect_cpu_util ops instance duration =
     bindM (call_get_vm_moid ops (instance_id instance)) (\<lambda>vm_moid.
       case vm_moid of
         None \<Rightarrow> raiseM (not_found instance)
       | Some moid \<Rightarrow>
           bindM (call_get_perf_counter_id ops VC_AVERAGE_CPU_CONSUMED_CNTR) (\<lambda>cpu_util_counter_id.
           bindM (call_query_vm_aggregate_stats ops moid cpu_util_counter_id duration) (\<lambda>cpu_util.
           bindM (liftE (py_div cpu_util (PyInt 100))) (\<lambda>cpu_util.
           returnM \<lparr>util = cpu_util\<rparr>))))"

text \<open>\<^verbatim>\<open>inspect_memory_usage\<close>: the test is \<^verbatim>\<open>vm_moid is None\<close>.\<close>

definition inspect_memory_usage ::
  "'s vsphere_ops \<Rightarrow> vm_instance \<Rightarrow> duration \<Rightarrow> (MemoryUsageStats, 's) action" where
  "inspect_memory_usage ops instance duration =
     bindM (call_get_vm_moid ops (instance_id instance)) (\<lambda>vm_moid.
       case vm_moid of
         None \<Rightarrow> raiseM (not_found instance)
       | Some moid \<Rightarrow>
           bindM (call_get_perf_counter_id ops VC_AVERAGE_MEMORY_CONSUMED_CNTR) (\<lambda>mem_counter_id.
           bindM (call_query_vm_aggregate_stats ops moid mem_counter_id duration) (\<lambda>memory.
           bindM (liftE (py_div memory Ki)) (\<lambda>memory.
           returnM \<lparr>usage = memory\<rparr>))))"

subsection \<open>Per-device fan-out inspections\<close>

text \<open>
  The first \<^verbatim>\<open>for\<close> loop of \<^verbatim>\<open>inspect_vnic_rates\<close> and of \<^verbatim>\<open>inspect_disk_rates\<close>
  (the two loops have the same body and differ in the counters they run over): resolve
  the counter id, query the per-device map, store it under the counter name and add its
  keys to the set of device ids.
\<close>

fun query_counters ::
  "'s vsphere_ops \<Rightarrow> string \<Rightarrow> duration \<Rightarrow> string list \<Rightarrow>
   (string \<rightharpoonup> device_stats) \<times> string list \<Rightarrow>
   ((string \<rightharpoonup> device_stats) \<times> string list, 's) action" where
  "query_counters ops vm_moid duration [] acc = returnM acc"
| "query_counters ops vm_moid duration (counter # rest) (stats, ids) =
     bindM (call_get_perf_counter_id ops counter) (\<lambda>counter_id.
     bindM (call_query_vm_device_stats ops vm_moid counter_id duration) (\<lambda>id_to_stats_map.
     query_counters ops vm_moid duration rest
       (stats(counter \<mapsto> id_to_stats_map), set_update ids (iterkeys id_to_stats_map))))"

text \<open>
  The code of \<^verbatim>\<open>inspect_vnic_rates\<close> up to its second loop. The test is
  \<^verbatim>\<open>not vm_moid\<close>: \<^verbatim>\<open>None\<close> and the empty string are the false values of a moid.
\<close>

definition vnic_start ::
  "'s vsphere_ops \<Rightarrow> vm_instance \<Rightarrow> duration \<Rightarrow>
   ((string \<rightharpoonup> device_stats) \<times> string list, 's) action" where
  "vnic_start ops instance duration =
     bindM (call_get_vm_moid ops (instance_id instance)) (\<lambda>vm_moid.
       case vm_moid of
         None \<Rightarrow> raiseM (not_found instance)
       | Some moid \<Rightarrow>
           if moid = [] then raiseM (not_found instance)
           else query_counters ops moid duration
                  [VC_NETWORK_RX_COUNTER, VC_NETWORK_TX_COUNTER] (Map.empty, []))"

text \<open>The body of the second loop of \<^verbatim>\<open>inspect_vnic_rates\<close>, up to the \<^verbatim>\<open>yield\<close>.\<close>

definition vnic_item ::
  "(string \<rightharpoonup> device_stats) \<Rightarrow> string \<Rightarrow> error + (Interface \<times> InterfaceRateStats)" where
  "vnic_item vnic_stats vnic_id =
     (case dict_getitem vnic_stats VC_NETWORK_RX_COUNTER of
        Inl e \<Rightarrow> Inl e
      | Inr rx_map \<Rightarrow>
          (let rx_rate = py_mul (dict_get rx_map vnic_id (PyInt 0)) Ki in
           case dict_getitem vnic_stats VC_NETWORK_TX_COUNTER of
             Inl e \<Rightarrow> Inl e
           | Inr tx_map \<Rightarrow>
               (let tx_rate = py_mul (dict_get tx_map vnic_id (PyInt 0)) Ki;
                    stats = \<lparr>rx_bytes_rate = rx_rate, tx_bytes_rate = tx_rate\<rparr>;
                    interface = \<lparr>name = vnic_id, mac = None, fref = None, parameters = None\<rparr>
                in Inr (interface, stats))))"

text \<open>
  \<^verbatim>\<open>inspect_vnic_rates\<close> is a generator function: calling it runs none of its body and
  returns a generator, which is either not started (it holds the arguments), suspended
  at the \<^verbatim>\<open>yield\<close> (it holds the device ids still to visit and \<^verbatim>\<open>vnic_stats\<close>), or
  finished. An exception finishes the generator.
\<close>

datatype vnic_gen =
    VnicCreated vm_instance duration
  | VnicSuspended "string list" "string \<rightharpoonup> device_stats"
  | VnicFinished

definition inspect_vnic_rates :: "vm_instance \<Rightarrow> duration \<Rightarrow> vnic_gen" where
  "inspect_vnic_rates instance duration = VnicCreated instance duration"

fun vnic_resume ::
  "string list \<Rightarrow> (string \<rightharpoonup> device_stats) \<Rightarrow>
   (error + (Interface \<times> InterfaceRateStats) option) \<times> vnic_gen" where
  "vnic_resume [] vnic_stats = (Inr None, VnicFinished)"
| "vnic_resume (vnic_id # rest) vnic_stats =
     (case vnic_item vnic_stats vnic_id of
        Inl e \<Rightarrow> (Inl e, VnicFinished)
      | Inr pair \<Rightarrow> (Inr (Some pair), VnicSuspended rest vnic_stats))"

text \<open>
  \<^verbatim>\<open>next(gen)\<close>: runs the generator to its next \<^verbatim>\<open>yield\<close> (\<open>Inr (Some pair)\<close>), to its
  end (\<open>Inr None\<close>, Python's \<^verbatim>\<open>StopIteration\<close>) or to an exception.
\<close>

definition vnic_next ::
  "'s vsphere_ops \<Rightarrow> vnic_gen \<Rightarrow> 's world \<Rightarrow>
   (error + (Interface \<times> InterfaceRateStats) option) \<times> vnic_gen \<times> 's world" where
  "vnic_next ops gen w =
     (case gen of
        VnicCreated instance duration \<Rightarrow>
          (case vnic_start ops instance duration w of
             (Inl e, w') \<Rightarrow> (Inl e, VnicFinished, w')
           | (Inr (vnic_stats, vnic_ids), w') \<Rightarrow>
               (case vnic_resume vnic_ids vnic_stats of (r, gen') \<Rightarrow> (r, gen', w')))
      | VnicSuspended vnic_ids vnic_stats \<Rightarrow>
          (case vnic_resume vnic_ids vnic_stats of (r, gen') \<Rightarrow> (r, gen', w))
      | VnicFinished \<Rightarrow> (Inr None, VnicFinished, w))"

text \<open>The counters of \<^verbatim>\<open>inspect_disk_rates\<close>, in the order of the source's list.\<close>

definition disk_counters :: "string list" where
  "disk_counters =
     [VC_DISK_READ_RATE_CNTR, VC_DISK_READ_REQUESTS_RATE_CNTR,
      VC_DISK_WRITE_RATE_CNTR, VC_DISK_WRITE_REQUESTS_RATE_CNTR]"

definition disk_start ::
  "'s vsphere_ops \<Rightarrow> vm_instance \<Rightarrow> duration \<Rightarrow>
   ((string \<rightharpoonup> device_stats) \<times> string list, 's) action" where
  "disk_start ops instance duration =
     bindM (call_get_vm_moid ops (instance_id instance)) (\<lambda>vm_moid.
       case vm_moid of
         None \<Rightarrow> raiseM (not_found instance)
       | Some moid \<Rightarrow>
           if moid = [] then raiseM (not_found instance)
           else query_counters ops moid duration disk_counters (Map.empty, []))"

text \<open>The local function \<^verbatim>\<open>stat_val\<close>: \<^verbatim>\<open>disk_stats[counter_name].get(disk_id, 0)\<close>.\<close>

definition stat_val ::
  "(string \<rightharpoonup> device_stats) \<Rightarrow> string \<Rightarrow> string \<Rightarrow> error + number" where
  "stat_val disk_stats disk_id counter_name =
     (case dict_getitem disk_stats counter_name of
        Inl e \<Rightarrow> Inl e
      | Inr m \<Rightarrow> Inr (dict_get m disk_id (PyInt 0)))"

text \<open>
  The body of the second loop of \<^verbatim>\<open>inspect_disk_rates\<close>: the keyword arguments are
  evaluated in the order they are written.
\<close>

definition disk_item ::
  "(string \<rightharpoonup> device_stats) \<Rightarrow> string \<Rightarrow> error + (Disk \<times> DiskRateStats)" where
  "disk_item disk_stats disk_id =
     (let disk = \<lparr>device = disk_id\<rparr> in
      case stat_val disk_stats disk_id VC_DISK_READ_RATE_CNTR of
        Inl e \<Rightarrow> Inl e
      | Inr v1 \<Rightarrow>
     (let read_bytes = py_mul v1 Ki in
      case stat_val disk_stats disk_id VC_DISK_READ_REQUESTS_RATE_CNTR of
        Inl e \<Rightarrow> Inl e
      | Inr read_requests \<Rightarrow>
     (case stat_val disk_stats disk_id VC_DISK_WRITE_RATE_CNTR of
        Inl e \<Rightarrow> Inl e
      | Inr v3 \<Rightarrow>
     (let write_bytes = py_mul v3 Ki in
      case stat_val disk_stats disk_id VC_DISK_WRITE_REQUESTS_RATE_CNTR of
        Inl e \<Rightarrow> Inl e
      | Inr write_requests \<Rightarrow>
          (let disk_rate_info =
                 \<lparr>read_bytes_rate = read_bytes,
                  read_requests_rate = read_requests,
                  write_bytes_rate = write_bytes,
                  write_requests_rate = write_requests\<rparr>
           in Inr (disk, disk_rate_info))))))"

datatype disk_gen =
    DiskCreated vm_instance duration
  | DiskSuspended "string list" "string \<rightharpoonup> device_stats"
  | DiskFinished

definition inspect_disk_rates :: "vm_instance \<Rightarrow> duration \<Rightarrow> disk_gen" where
  "inspect_disk_rates instance duration = DiskCreated instance duration"

fun disk_resume ::
  "string list \<Rightarrow> (string \<rightharpoonup> device_stats) \<Rightarrow>
   (error + (Disk \<times> DiskRateStats) option) \<times> disk_gen" where
  "disk_resume [] disk_stats = (Inr None, DiskFinished)"
| "disk_resume (disk_id # rest) disk_stats =
     (case disk_item disk_stats disk_id of
        Inl e \<Rightarrow> (Inl e, DiskFinished)
      | Inr pair \<Rightarrow> (Inr (Some pair), DiskSuspended rest disk_stats))"

definition disk_next ::
  "'s vsphere_ops \<Rightarrow> disk_gen \<Rightarrow> 's world \<Rightarrow>
   (error + (Disk \<times> DiskRateStats) option) \<times> disk_gen \<times> 's world" where
  "disk_next ops gen w =
     (case gen of
        DiskCreated instance duration \<Rightarrow>
          (case disk_start ops instance duration w of
             (Inl e, w') \<Rightarrow> (Inl e, DiskFinished, w')
           | (Inr (disk_stats, disk_ids), w') \<Rightarrow>
               (case disk_resume disk_ids disk_stats of (r, gen') \<Rightarrow> (r, gen', w')))
      | DiskSuspended disk_ids disk_stats \<Rightarrow>
          (case disk_resume disk_ids disk_stats of (r, gen') \<Rightarrow> (r, gen', w))
      | DiskFinished \<Rightarrow> (Inr None, DiskFinished, w))"

subsection \<open>Consuming a generator\<close>

text \<open>
  The caller's \<^verbatim>\<open>for pair in gen\<close>: \<^verbatim>\<open>next\<close> is called until the generator ends or
  raises. The result is the list of the pairs yielded, the exception that ended the
  iteration if there was one, and the final world. Iteration over a generator need not
  end in general, so the consumer is a partial function; that it returns for the two
  generators of the inspector is proved below.
\<close>

partial_function (option) consume ::
  "('g \<Rightarrow> 'w \<Rightarrow> (error + 'a option) \<times> 'g \<times> 'w) \<Rightarrow> 'g \<Rightarrow> 'w \<Rightarrow>
   ('a list \<times> error option \<times> 'w) option" where
  "consume nxt gen w =
     (case nxt gen w of
        (Inl e, gen', w') \<Rightarrow> Some ([], Some e, w')
      | (Inr None, gen', w') \<Rightarrow> Some ([], None, w')
      | (Inr (Some x), gen', w') \<Rightarrow>
          Option.bind (consume nxt gen' w') (\<lambda>(xs, e, w''). Some (x # xs, e, w'')))"

declare consume.simps [code]

subsection \<open>What the collaborator answers\<close>

text \<open>
  The answers of the collaborator when, from the state \<open>s\<close>, it is asked for the counters
  \<open>cs\<close> in turn (the counter id, then the per-device statistics under that id): the
  list of the counter ids and per-device maps it returns and its final state, or \<open>None\<close>
  when one of the calls raises. The statements about a complete fan-out name the maps
  returned through it.
\<close>

fun answers ::
  "'s vsphere_ops \<Rightarrow> string \<Rightarrow> duration \<Rightarrow> string list \<Rightarrow> 's \<Rightarrow>
   ((int \<times> device_stats) list \<times> 's) option" where
  "answers ops m d [] s = Some ([], s)"
| "answers ops m d (c # cs) s =
     (case get_perf_counter_id ops c s of
        (Inl e, s') \<Rightarrow> None
      | (Inr i, s') \<Rightarrow>
          (case query_vm_device_stats ops m i d s' of
             (Inl e, s'') \<Rightarrow> None
           | (Inr stats, s'') \<Rightarrow>
               map_option (\<lambda>(rest, t). ((i, stats) # rest, t)) (answers ops m d cs s'')))"

subsection \<open>A table-driven collaborator\<close>

text \<open>
  A deterministic stand-in for \<^verbatim>\<open>VsphereOperations\<close>, used to run the inspector on
  concrete inputs: it answers from fixed tables (instance id to moid, counter name to
  counter id, counter id to aggregate value, counter id to per-device map), raises for a
  counter or a statistic it does not know, and counts the calls it has served in its
  state.
\<close>

definition table_ops ::
  "(string \<times> string option) list \<Rightarrow> (string \<times> int) list \<Rightarrow> (int \<times> number) list \<Rightarrow>
   (int \<times> device_stats) list \<Rightarrow> nat vsphere_ops" where
  "table_ops moids counters aggregates devices =
     \<lparr>get_vm_moid = (\<lambda>i s.
        (case map_of moids i of None \<Rightarrow> Inr None | Some m \<Rightarrow> Inr m, Suc s)),
      get_perf_counter_id = (\<lambda>c s.
        (case map_of counters c of
           None \<Rightarrow> Inl (OpsError ''unknown counter'') | Some i \<Rightarrow> Inr i, Suc s)),
      query_vm_aggregate_stats = (\<lambda>m c d s.
        (case map_of aggregates c of
           None \<Rightarrow> Inl (OpsError ''no statistics'') | Some v \<Rightarrow> Inr v, Suc s)),
      query_vm_device_stats = (\<lambda>m c d s.
        (case map_of devices c of
           None \<Rightarrow> Inl (OpsError ''no statistics'') | Some v \<Rightarrow> Inr v, Suc s))\<rparr>"

text \<open>The counter catalogue of the scenarios.\<close>

definition catalogue :: "(string \<times> int) list" where
  "catalogue =
     [(VC_AVERAGE_CPU_CONSUMED_CNTR, 1), (VC_AVERAGE_MEMORY_CONSUMED_CNTR, 2),
      (VC_NETWORK_RX_COUNTER, 3), (VC_NETWORK_TX_COUNTER, 4),
      (VC_DISK_READ_RATE_CNTR, 5), (VC_DISK_READ_REQUESTS_RATE_CNTR, 6),
      (VC_DISK_WRITE_RATE_CNTR, 7), (VC_DISK_WRITE_REQUESTS_RATE_CNTR, 8)]"

definition world0 :: "nat world" where
  "world0 = \<lparr>ops_state = 0, calls = []\<rparr>"

text \<open>
  The scenario of the spec: instance vm-1 has the moid vm-1-moid and the raw CPU value
  4567; instance vm-2 has one interface known to both network counters and one known
  to the transmit counter only, and two disks known to different counters; instance
  vm-0 resolves to the empty moid; any other instance is not found.
\<close>

definition scenario_rx :: device_stats where
  "scenario_rx = [(''nic-0'', PyInt 100)]"

definition scenario_tx :: device_stats where
  "scenario_tx = [(''nic-0'', PyInt 50), (''nic-1'', PyInt 20)]"

definition scenario_rb :: device_stats where
  "scenario_rb = [(''d1'', PyInt 5)]"

definition scenario_rr :: device_stats where
  "scenario_rr = [(''d2'', PyInt 7)]"

definition scenario_wb :: device_stats where
  "scenario_wb = [(''d1'', PyFloat (3 / 2))]"

definition scenario_wr :: device_stats where
  "scenario_wr = []"

definition scenario_ops :: "nat vsphere_ops" where
  "scenario_ops =
     table_ops
       [(''vm-1'', Some ''vm-1-moid''), (''vm-2'', Some ''vm-2-moid''), (''vm-0'', Some [])]
       catalogue
       [(1, PyFloat 4567), (2, PyFloat 2048)]
       [(3, scenario_rx), (4, scenario_tx), (5, scenario_rb), (6, scenario_rr),
        (7, scenario_wb), (8, scenario_wr)]"

text \<open>The same collaborator with no statistics for the transmit and the write counters.\<close>

definition failing_ops :: "nat vsphere_ops" where
  "failing_ops =
     table_ops [(''vm-2'', Some ''vm-2-moid'')] catalogue []
       [(3, scenario_rx), (5, scenario_rb), (6, scenario_rr)]"

section \<open>Properties\<close>

lemmas action_defs = bindM_def returnM_def raiseM_def liftE_def

lemmas call_defs = call_get_vm_moid_def call_get_perf_counter_id_def
  call_query_vm_aggregate_stats_def call_query_vm_device_stats_def

lemmas table_defs = table_ops_def catalogue_def world0_def
  VC_AVERAGE_MEMORY_CONSUMED_CNTR_def VC_AVERAGE_CPU_CONSUMED_CNTR_def
  VC_NETWORK_RX_COUNTER_def VC_NETWORK_TX_COUNTER_def
  VC_DISK_READ_RATE_CNTR_def VC_DISK_READ_REQUESTS_RATE_CNTR_def
  VC_DISK_WRITE_RATE_CNTR_def VC_DISK_WRITE_REQUESTS_RATE_CNTR_def

subsection \<open>Aggregate inspections: what a successful run returns\<close>

lemma inspect_cpu_util_run:
  assumes "get_vm_moid ops (instance_id inst) (ops_state w) = (Inr (Some m), s1)"
    and "get_perf_counter_id ops VC_AVERAGE_CPU_CONSUMED_CNTR s1 = (Inr c, s2)"
    and "query_vm_aggregate_stats ops m c d s2 = (Inr v, s3)"
  shows "inspect_cpu_util ops inst d w =
    (case py_div v (PyInt 100) of Inl e \<Rightarrow> Inl e | Inr q \<Rightarrow> Inr \<lparr>util = q\<rparr>,
     \<lparr>ops_state = s3,
      calls = calls w @ [GetVmMoid (instance_id inst),
                         GetPerfCounterId VC_AVERAGE_CPU_CONSUMED_CNTR,
                         QueryVmAggregateStats m c d]\<rparr>)"
  using assms by (simp add: inspect_cpu_util_def action_defs call_defs split: sum.splits)

lemma inspect_memory_usage_run:
  assumes "get_vm_moid ops (instance_id inst) (ops_state w) = (Inr (Some m), s1)"
    and "get_perf_counter_id ops VC_AVERAGE_MEMORY_CONSUMED_CNTR s1 = (Inr c, s2)"
    and "query_vm_aggregate_stats ops m c d s2 = (Inr v, s3)"
  shows "inspect_memory_usage ops inst d w =
    (case py_div v Ki of Inl e \<Rightarrow> Inl e | Inr q \<Rightarrow> Inr \<lparr>usage = q\<rparr>,
     \<lparr>ops_state = s3,
      calls = calls w @ [GetVmMoid (instance_id inst),
                         GetPerfCounterId VC_AVERAGE_MEMORY_CONSUMED_CNTR,
                         QueryVmAggregateStats m c d]\<rparr>)"
  using assms by (simp add: inspect_memory_usage_def action_defs call_defs split: sum.splits)

text \<open>
  When the query engine returns a float, the quotient keeps its fraction; when it
  returns an integer, Python 2 floors it.
\<close>

lemma inspect_cpu_util_float:
  assumes "get_vm_moid ops (instance_id inst) (ops_state w) = (Inr (Some m), s1)"
    and "get_perf_counter_id ops VC_AVERAGE_CPU_CONSUMED_CNTR s1 = (Inr c, s2)"
    and "query_vm_aggregate_stats ops m c d s2 = (Inr (PyFloat x), s3)"
  shows "fst (inspect_cpu_util ops inst d w) = Inr \<lparr>util = PyFloat (x / 100)\<rparr>"
  by (simp add: inspect_cpu_util_run [OF assms])

lemma inspect_cpu_util_int:
  assumes "get_vm_moid ops (instance_id inst) (ops_state w) = (Inr (Some m), s1)"
    and "get_perf_counter_id ops VC_AVERAGE_CPU_CONSUMED_CNTR s1 = (Inr c, s2)"
    and "query_vm_aggregate_stats ops m c d s2 = (Inr (PyInt i), s3)"
  shows "fst (inspect_cpu_util ops inst d w) = Inr \<lparr>util = PyInt (i div 100)\<rparr>"
  by (simp add: inspect_cpu_util_run [OF assms])

lemma inspect_memory_usage_float:
  assumes "get_vm_moid ops (instance_id inst) (ops_state w) = (Inr (Some m), s1)"
    and "get_perf_counter_id ops VC_AVERAGE_MEMORY_CONSUMED_CNTR s1 = (Inr c, s2)"
    and "query_vm_aggregate_stats ops m c d s2 = (Inr (PyFloat x), s3)"
  shows "fst (inspect_memory_usage ops inst d w) = Inr \<lparr>usage = PyFloat (x / 1024)\<rparr>"
  by (simp add: inspect_memory_usage_run [OF assms] Ki_def)

lemma inspect_memory_usage_int:
  assumes "get_vm_moid ops (instance_id inst) (ops_state w) = (Inr (Some m), s1)"
    and "get_perf_counter_id ops VC_AVERAGE_MEMORY_CONSUMED_CNTR s1 = (Inr c, s2)"
    and "query_vm_aggregate_stats ops m c d s2 = (Inr (PyInt i), s3)"
  shows "fst (inspect_memory_usage ops inst d w) = Inr \<lparr>usage = PyInt (i div 1024)\<rparr>"
  by (simp add: inspect_memory_usage_run [OF assms] Ki_def)

text \<open>
  C1. The claim: for every raw CPU value \<open>v\<close> the \<open>util\<close> field is \<open>v / 100\<close> with its
  fraction (raw 1234 gives 12.34, raw 4567 gives 45.67). The source's comment names the
  raw value as a long (\<^verbatim>\<open>the value returned is 1234\<close>). Run on the integers 1234 and
  4567, \<^verbatim>\<open>inspect_cpu_util\<close> returns the integers 12 and 45: the Python 2 division of two
  integers drops the fraction.
\<close>

theorem cpu_util_integer_truncated:
  "fst (inspect_cpu_util
          (table_ops [(''vm-1'', Some ''vm-1-moid'')] catalogue [(1, PyInt 1234)] [])
          \<lparr>instance_id = ''vm-1''\<rparr> None world0) = Inr \<lparr>util = PyInt 12\<rparr>
   \<and> num_value (PyInt 12) \<noteq> 1234 / 100
   \<and> fst (inspect_cpu_util
          (table_ops [(''vm-1'', Some ''vm-1-moid'')] catalogue [(1, PyInt 4567)] [])
          \<lparr>instance_id = ''vm-1''\<rparr> None world0) = Inr \<lparr>util = PyInt 45\<rparr>
   \<and> num_value (PyInt 45) \<noteq> 4567 / 100"
  by (simp add: inspect_cpu_util_def action_defs call_defs table_defs)

text \<open>
  C4. The claim: for every raw memory value \<open>v\<close> in kilobytes the \<open>usage\<close> field is
  \<open>v / 1024\<close> megabytes. Run on the integer 1536 (one and a half megabytes),
  \<^verbatim>\<open>inspect_memory_usage\<close> returns the integer 1: the same Python 2 division of two
  integers as in \<^verbatim>\<open>inspect_cpu_util\<close>.
\<close>

theorem memory_usage_integer_truncated:
  "fst (inspect_memory_usage
          (table_ops [(''vm-1'', Some ''vm-1-moid'')] catalogue [(2, PyInt 1536)] [])
          \<lparr>instance_id = ''vm-1''\<rparr> None world0) = Inr \<lparr>usage = PyInt 1\<rparr>
   \<and> num_value (PyInt 1) \<noteq> 1536 / 1024"
  by (simp add: inspect_memory_usage_def action_defs call_defs table_defs Ki_def)

subsection \<open>The instance is not found\<close>

lemma not_found_cpu:
  assumes "get_vm_moid ops (instance_id inst) (ops_state w) = (Inr None, s1)"
  shows "inspect_cpu_util ops inst d w =
    (Inl (not_found inst), \<lparr>ops_state = s1, calls = calls w @ [GetVmMoid (instance_id inst)]\<rparr>)"
  using assms by (simp add: inspect_cpu_util_def action_defs call_defs)

lemma not_found_memory:
  assumes "get_vm_moid ops (instance_id inst) (ops_state w) = (Inr None, s1)"
  shows "inspect_memory_usage ops inst d w =
    (Inl (not_found inst), \<lparr>ops_state = s1, calls = calls w @ [GetVmMoid (instance_id inst)]\<rparr>)"
  using assms by (simp add: inspect_memory_usage_def action_defs call_defs)

lemma falsy_vnic_start:
  assumes "get_vm_moid ops (instance_id inst) (ops_state w) = (Inr mo, s1)"
    and "mo = None \<or> mo = Some []"
  shows "vnic_start ops inst d w =
    (Inl (not_found inst), \<lparr>ops_state = s1, calls = calls w @ [GetVmMoid (instance_id inst)]\<rparr>)"
  using assms by (auto simp add: vnic_start_def action_defs call_defs)

lemma falsy_disk_start:
  assumes "get_vm_moid ops (instance_id inst) (ops_state w) = (Inr mo, s1)"
    and "mo = None \<or> mo = Some []"
  shows "disk_start ops inst d w =
    (Inl (not_found inst), \<lparr>ops_state = s1, calls = calls w @ [GetVmMoid (instance_id inst)]\<rparr>)"
  using assms by (auto simp add: disk_start_def action_defs call_defs)

lemma vnic_next_start_error:
  "vnic_start ops inst d w = (Inl e, w') \<Longrightarrow>
   vnic_next ops (inspect_vnic_rates inst d) w = (Inl e, VnicFinished, w')"
  by (simp add: vnic_next_def inspect_vnic_rates_def)

lemma disk_next_start_error:
  "disk_start ops inst d w = (Inl e, w') \<Longrightarrow>
   disk_next ops (inspect_disk_rates inst d) w = (Inl e, DiskFinished, w')"
  by (simp add: disk_next_def inspect_disk_rates_def)

lemma consume_error:
  "nxt gen w = (Inl e, gen', w') \<Longrightarrow> consume nxt gen w = Some ([], Some e, w')"
  by (subst consume.simps) simp

lemma consume_stop:
  "nxt gen w = (Inr None, gen', w') \<Longrightarrow> consume nxt gen w = Some ([], None, w')"
  by (subst consume.simps) simp

lemma consume_yield:
  "nxt gen w = (Inr (Some x), gen', w') \<Longrightarrow> consume nxt gen' w' = Some (xs, e, w'') \<Longrightarrow>
   consume nxt gen w = Some (x # xs, e, w'')"
  by (subst consume.simps) simp

text \<open>
  C3. When \<^verbatim>\<open>get_vm_moid\<close> returns \<^verbatim>\<open>None\<close> for the instance, each of the four
  inspections raises \<^verbatim>\<open>InstanceNotFoundException\<close> with a message that carries the
  instance id, and the only call issued to the collaborator is that \<^verbatim>\<open>get_vm_moid\<close>: no
  counter id is resolved and no statistics are queried. The two generators raise on the
  first \<^verbatim>\<open>next\<close>, so that iterating them yields no pair.
\<close>

theorem not_found_fails_without_query:
  assumes "get_vm_moid ops (instance_id inst) (ops_state w) = (Inr None, s1)"
  defines "err \<equiv> InstanceNotFoundException
                    (''VM '' @ instance_id inst @ '' not found in VMware Vsphere'')"
  defines "w1 \<equiv> \<lparr>ops_state = s1, calls = calls w @ [GetVmMoid (instance_id inst)]\<rparr>"
  shows "inspect_cpu_util ops inst d w = (Inl err, w1)
     \<and> inspect_memory_usage ops inst d w = (Inl err, w1)
     \<and> vnic_next ops (inspect_vnic_rates inst d) w = (Inl err, VnicFinished, w1)
     \<and> disk_next ops (inspect_disk_rates inst d) w = (Inl err, DiskFinished, w1)
     \<and> consume (vnic_next ops) (inspect_vnic_rates inst d) w = Some ([], Some err, w1)
     \<and> consume (disk_next ops) (inspect_disk_rates inst d) w = Some ([], Some err, w1)"
proof -
  have e: "err = not_found inst" by (simp add: err_def not_found_def)
  have v: "vnic_next ops (inspect_vnic_rates inst d) w = (Inl err, VnicFinished, w1)"
    unfolding e w1_def by (rule vnic_next_start_error, rule falsy_vnic_start [OF assms(1)]) simp
  have k: "disk_next ops (inspect_disk_rates inst d) w = (Inl err, DiskFinished, w1)"
    unfolding e w1_def by (rule disk_next_start_error, rule falsy_disk_start [OF assms(1)]) simp
  show ?thesis
    using not_found_cpu [OF assms(1)] not_found_memory [OF assms(1)] v k
      consume_error [where nxt = "vnic_next ops", OF v]
      consume_error [where nxt = "disk_next ops", OF k]
    by (simp add: e w1_def)
qed

theorem not_found_fails_without_query_witness:
  "inspect_cpu_util (table_ops [(''vm-1'', Some ''vm-1-moid'')] catalogue [] [])
      \<lparr>instance_id = ''vm-404''\<rparr> None world0 =
     (Inl (InstanceNotFoundException ''VM vm-404 not found in VMware Vsphere''),
      \<lparr>ops_state = 1, calls = [GetVmMoid ''vm-404'']\<rparr>)
   \<and> consume (vnic_next (table_ops [(''vm-1'', Some ''vm-1-moid'')] catalogue [] []))
        (inspect_vnic_rates \<lparr>instance_id = ''vm-404''\<rparr> None) world0 =
     Some ([], Some (InstanceNotFoundException ''VM vm-404 not found in VMware Vsphere''),
      \<lparr>ops_state = 1, calls = [GetVmMoid ''vm-404'']\<rparr>)"
  using not_found_fails_without_query
    [of "table_ops [(''vm-1'', Some ''vm-1-moid'')] catalogue [] []"
        "\<lparr>instance_id = ''vm-404''\<rparr>" world0 1 None]
  by (simp add: table_ops_def world0_def)

subsection \<open>Repeated CPU inspections\<close>

lemma inspect_cpu_util_fst:
  "fst (inspect_cpu_util ops inst d w) =
     (case get_vm_moid ops (instance_id inst) (ops_state w) of
        (Inl e, s1) \<Rightarrow> Inl e
      | (Inr None, s1) \<Rightarrow> Inl (not_found inst)
      | (Inr (Some m), s1) \<Rightarrow>
          (case get_perf_counter_id ops VC_AVERAGE_CPU_CONSUMED_CNTR s1 of
             (Inl e, s2) \<Rightarrow> Inl e
           | (Inr c, s2) \<Rightarrow>
               (case query_vm_aggregate_stats ops m c d s2 of
                  (Inl e, s3) \<Rightarrow> Inl e
                | (Inr v, s3) \<Rightarrow>
                    (case py_div v (PyInt 100) of Inl e \<Rightarrow> Inl e | Inr q \<Rightarrow> Inr \<lparr>util = q\<rparr>))))"
  by (simp add: inspect_cpu_util_def action_defs call_defs
        split: sum.splits option.splits prod.splits)

text \<open>
  C6. When the answers of the collaborator do not depend on its internal state (a
  deterministic query engine whose data is unchanged), a second call of
  \<^verbatim>\<open>inspect_cpu_util\<close> with the same instance and duration, made in the world the first
  call left behind, returns what the first call returned.
\<close>

theorem cpu_util_deterministic:
  assumes "\<And>i s s'. fst (get_vm_moid ops i s) = fst (get_vm_moid ops i s')"
    and "\<And>c s s'. fst (get_perf_counter_id ops c s) = fst (get_perf_counter_id ops c s')"
    and "\<And>m c d s s'. fst (query_vm_aggregate_stats ops m c d s) =
                         fst (query_vm_aggregate_stats ops m c d s')"
  shows "fst (inspect_cpu_util ops inst d (snd (inspect_cpu_util ops inst d w))) =
         fst (inspect_cpu_util ops inst d w)"
proof -
  have gen: "fst (inspect_cpu_util ops inst d w1) = fst (inspect_cpu_util ops inst d w2)" for w1 w2
  proof -
    obtain r1 t1 where a1: "get_vm_moid ops (instance_id inst) (ops_state w1) = (r1, t1)"
      by (cases "get_vm_moid ops (instance_id inst) (ops_state w1)")
    obtain r2 t2 where a2: "get_vm_moid ops (instance_id inst) (ops_state w2) = (r2, t2)"
      by (cases "get_vm_moid ops (instance_id inst) (ops_state w2)")
    have r: "r2 = r1"
      using assms(1) [of "instance_id inst" "ops_state w1" "ops_state w2"] a1 a2 by simp
    obtain c1 u1 where b1: "get_perf_counter_id ops VC_AVERAGE_CPU_CONSUMED_CNTR t1 = (c1, u1)"
      by (cases "get_perf_counter_id ops VC_AVERAGE_CPU_CONSUMED_CNTR t1")
    obtain c2 u2 where b2: "get_perf_counter_id ops VC_AVERAGE_CPU_CONSUMED_CNTR t2 = (c2, u2)"
      by (cases "get_perf_counter_id ops VC_AVERAGE_CPU_CONSUMED_CNTR t2")
    have c: "c2 = c1" using assms(2) [of VC_AVERAGE_CPU_CONSUMED_CNTR t1 t2] b1 b2 by simp
    have q: "\<exists>v x1 x2. query_vm_aggregate_stats ops m k d u1 = (v, x1) \<and>
                        query_vm_aggregate_stats ops m k d u2 = (v, x2)" for m k
      using assms(3) [of m k d u1 u2] by (metis prod.collapse)
    show ?thesis
    proof (cases r1)
      case (Inl e)
      then show ?thesis using a1 a2 r by (simp add: inspect_cpu_util_fst)
    next
      case (Inr mo)
      show ?thesis
      proof (cases mo)
        case None
        then show ?thesis using Inr a1 a2 r by (simp add: inspect_cpu_util_fst)
      next
        case (Some m)
        show ?thesis
        proof (cases c1)
          case (Inl e)
          then show ?thesis using Some Inr a1 a2 r b1 b2 c by (simp add: inspect_cpu_util_fst)
        next
          case (Inr k)
          obtain v x1 x2 where "query_vm_aggregate_stats ops m k d u1 = (v, x1)"
            and "query_vm_aggregate_stats ops m k d u2 = (v, x2)"
            using q by blast
          then show ?thesis
            using Some \<open>r1 = Inr mo\<close> Inr a1 a2 r b1 b2 c by (simp add: inspect_cpu_util_fst)
        qed
      qed
    qed
  qed
  show ?thesis by (rule gen)
qed

theorem cpu_util_deterministic_witness:
  "fst (inspect_cpu_util
          (table_ops [(''vm-1'', Some ''vm-1-moid'')] catalogue [(1, PyFloat 4567)] [])
          \<lparr>instance_id = ''vm-1''\<rparr> None
          (snd (inspect_cpu_util
                  (table_ops [(''vm-1'', Some ''vm-1-moid'')] catalogue [(1, PyFloat 4567)] [])
                  \<lparr>instance_id = ''vm-1''\<rparr> None world0))) =
   fst (inspect_cpu_util
          (table_ops [(''vm-1'', Some ''vm-1-moid'')] catalogue [(1, PyFloat 4567)] [])
          \<lparr>instance_id = ''vm-1''\<rparr> None world0)"
  by (rule cpu_util_deterministic) (simp_all add: table_ops_def)

subsection \<open>The fan-out generators\<close>

lemma set_set_update: "set (set_update s ks) = set s \<union> set ks"
  unfolding set_update_def by (induction ks arbitrary: s) auto

lemma distinct_set_update: "distinct s \<Longrightarrow> distinct (set_update s ks)"
  unfolding set_update_def by (induction ks arbitrary: s) auto

lemma set_iterkeys: "set (iterkeys m) = fst ` set m"
  by (simp add: iterkeys_def)

lemma dict_get_missing: "k \<notin> fst ` set m \<Longrightarrow> dict_get m k dflt = dflt"
  by (simp add: dict_get_def map_of_eq_None_iff [THEN iffD2])

lemma query_counters_dom:
  "query_counters ops m d cs (stats, ids) w = (Inr (stats', ids'), w') \<Longrightarrow>
   dom stats \<union> set cs \<subseteq> dom stats'"
proof (induction cs arbitrary: stats ids w)
  case Nil
  then show ?case by (simp add: returnM_def)
next
  case (Cons c cs)
  obtain r1 s1 where g: "get_perf_counter_id ops c (ops_state w) = (r1, s1)"
    by (cases "get_perf_counter_id ops c (ops_state w)")
  from Cons.prems g obtain i where r1: "r1 = Inr i"
    by (cases r1) (simp_all add: action_defs call_defs)
  obtain r2 s2 where q: "query_vm_device_stats ops m i d s1 = (r2, s2)"
    by (cases "query_vm_device_stats ops m i d s1")
  from Cons.prems g r1 q obtain mp where r2: "r2 = Inr mp"
    by (cases r2) (simp_all add: action_defs call_defs)
  let ?w2 = "\<lparr>ops_state = s2,
              calls = calls w @ [GetPerfCounterId c, QueryVmDeviceStats m i d]\<rparr>"
  have "query_counters ops m d cs (stats(c \<mapsto> mp), set_update ids (iterkeys mp)) ?w2 =
          (Inr (stats', ids'), w')"
    using Cons.prems g r1 q r2 by (simp add: action_defs call_defs)
  from Cons.IH [OF this] have "dom (stats(c \<mapsto> mp)) \<union> set cs \<subseteq> dom stats'" .
  then show ?case by (auto simp del: fun_upd_apply)
qed

lemma vnic_start_success:
  assumes "vnic_start ops inst d w = (Inr res, w')"
  shows "\<exists>m s1. get_vm_moid ops (instance_id inst) (ops_state w) = (Inr (Some m), s1) \<and> m \<noteq> [] \<and>
     query_counters ops m d [VC_NETWORK_RX_COUNTER, VC_NETWORK_TX_COUNTER] (Map.empty, [])
       \<lparr>ops_state = s1, calls = calls w @ [GetVmMoid (instance_id inst)]\<rparr> = (Inr res, w')"
proof -
  obtain r s1 where g: "get_vm_moid ops (instance_id inst) (ops_state w) = (r, s1)"
    by (cases "get_vm_moid ops (instance_id inst) (ops_state w)")
  show ?thesis using assms g
    by (auto simp add: vnic_start_def action_defs call_get_vm_moid_def
          split: sum.splits option.splits if_splits)
qed

lemma disk_start_success:
  assumes "disk_start ops inst d w = (Inr res, w')"
  shows "\<exists>m s1. get_vm_moid ops (instance_id inst) (ops_state w) = (Inr (Some m), s1) \<and> m \<noteq> [] \<and>
     query_counters ops m d disk_counters (Map.empty, [])
       \<lparr>ops_state = s1, calls = calls w @ [GetVmMoid (instance_id inst)]\<rparr> = (Inr res, w')"
proof -
  obtain r s1 where g: "get_vm_moid ops (instance_id inst) (ops_state w) = (r, s1)"
    by (cases "get_vm_moid ops (instance_id inst) (ops_state w)")
  show ?thesis using assms g
    by (auto simp add: disk_start_def action_defs call_get_vm_moid_def
          split: sum.splits option.splits if_splits)
qed


lemma vnic_item_ok:
  assumes "stats VC_NETWORK_RX_COUNTER = Some rx" and "stats VC_NETWORK_TX_COUNTER = Some tx"
  shows "vnic_item stats k =
    Inr (\<lparr>name = k, mac = None, fref = None, parameters = None\<rparr>,
         \<lparr>rx_bytes_rate = py_mul (dict_get rx k (PyInt 0)) Ki,
          tx_bytes_rate = py_mul (dict_get tx k (PyInt 0)) Ki\<rparr>)"
  using assms by (simp add: vnic_item_def dict_getitem_def Let_def)

lemma disk_item_ok:
  assumes "stats VC_DISK_READ_RATE_CNTR = Some rb"
    and "stats VC_DISK_READ_REQUESTS_RATE_CNTR = Some rr"
    and "stats VC_DISK_WRITE_RATE_CNTR = Some wb"
    and "stats VC_DISK_WRITE_REQUESTS_RATE_CNTR = Some wr"
  shows "disk_item stats k =
    Inr (\<lparr>device = k\<rparr>,
         \<lparr>read_bytes_rate = py_mul (dict_get rb k (PyInt 0)) Ki,
          read_requests_rate = dict_get rr k (PyInt 0),
          write_bytes_rate = py_mul (dict_get wb k (PyInt 0)) Ki,
          write_requests_rate = dict_get wr k (PyInt 0)\<rparr>)"
  using assms by (simp add: disk_item_def stat_val_def dict_getitem_def Let_def)

lemma consume_same_step:
  "nxt g w = nxt g' w' \<Longrightarrow> consume nxt g w = consume nxt g' w'"
  by (simp add: consume.simps [of nxt g w] consume.simps [of nxt g' w'])

lemma vnic_next_suspended_nil:
  "vnic_next ops (VnicSuspended [] stats) w = (Inr None, VnicFinished, w)"
  by (simp add: vnic_next_def)

lemma vnic_next_suspended_cons:
  "vnic_item stats k = Inr pair \<Longrightarrow>
   vnic_next ops (VnicSuspended (k # ids) stats) w = (Inr (Some pair), VnicSuspended ids stats, w)"
  by (simp add: vnic_next_def)

lemma disk_next_suspended_nil:
  "disk_next ops (DiskSuspended [] stats) w = (Inr None, DiskFinished, w)"
  by (simp add: disk_next_def)

lemma disk_next_suspended_cons:
  "disk_item stats k = Inr pair \<Longrightarrow>
   disk_next ops (DiskSuspended (k # ids) stats) w = (Inr (Some pair), DiskSuspended ids stats, w)"
  by (simp add: disk_next_def)

lemma consume_vnic_suspended:
  assumes "stats VC_NETWORK_RX_COUNTER = Some rx" and "stats VC_NETWORK_TX_COUNTER = Some tx"
  shows "consume (vnic_next ops) (VnicSuspended ids stats) w =
    Some (map (\<lambda>k. (\<lparr>name = k, mac = None, fref = None, parameters = None\<rparr>,
                     \<lparr>rx_bytes_rate = py_mul (dict_get rx k (PyInt 0)) Ki,
                      tx_bytes_rate = py_mul (dict_get tx k (PyInt 0)) Ki\<rparr>)) ids,
          None, w)"
proof (induction ids)
  case Nil
  show ?case
    using consume_stop [where nxt = "vnic_next ops", OF vnic_next_suspended_nil] by simp
next
  case (Cons k ids)
  show ?case
    using consume_yield [where nxt = "vnic_next ops",
            OF vnic_next_suspended_cons [OF vnic_item_ok [OF assms]] Cons.IH]
    by simp
qed

lemma consume_disk_suspended:
  assumes "stats VC_DISK_READ_RATE_CNTR = Some rb"
    and "stats VC_DISK_READ_REQUESTS_RATE_CNTR = Some rr"
    and "stats VC_DISK_WRITE_RATE_CNTR = Some wb"
    and "stats VC_DISK_WRITE_REQUESTS_RATE_CNTR = Some wr"
  shows "consume (disk_next ops) (DiskSuspended ids stats) w =
    Some (map (\<lambda>k. (\<lparr>device = k\<rparr>,
                     \<lparr>read_bytes_rate = py_mul (dict_get rb k (PyInt 0)) Ki,
                      read_requests_rate = dict_get rr k (PyInt 0),
                      write_bytes_rate = py_mul (dict_get wb k (PyInt 0)) Ki,
                      write_requests_rate = dict_get wr k (PyInt 0)\<rparr>)) ids,
          None, w)"
proof (induction ids)
  case Nil
  show ?case
    using consume_stop [where nxt = "disk_next ops", OF disk_next_suspended_nil] by simp
next
  case (Cons k ids)
  show ?case
    using consume_yield [where nxt = "disk_next ops",
            OF disk_next_suspended_cons [OF disk_item_ok [OF assms]] Cons.IH]
    by simp
qed

lemma vnic_next_created:
  "vnic_start ops inst d w = (Inr (stats, ids), w') \<Longrightarrow>
   vnic_next ops (inspect_vnic_rates inst d) w = vnic_next ops (VnicSuspended ids stats) w'"
  by (simp add: vnic_next_def inspect_vnic_rates_def)

lemma disk_next_created:
  "disk_start ops inst d w = (Inr (stats, ids), w') \<Longrightarrow>
   disk_next ops (inspect_disk_rates inst d) w = disk_next ops (DiskSuspended ids stats) w'"
  by (simp add: disk_next_def inspect_disk_rates_def)

lemma vnic_next_suspended_world:
  "snd (snd (vnic_next ops (VnicSuspended ids stats) w)) = w"
  by (simp add: vnic_next_def split: prod.splits)

lemma disk_next_suspended_world:
  "snd (snd (disk_next ops (DiskSuspended ids stats) w)) = w"
  by (simp add: disk_next_def split: prod.splits)

text \<open>A started generator has every counter of its loop in its dictionary.\<close>

lemma vnic_start_stats:
  assumes "vnic_start ops inst d w = (Inr (stats, ids), w')"
  shows "\<exists>rx tx. stats VC_NETWORK_RX_COUNTER = Some rx \<and> stats VC_NETWORK_TX_COUNTER = Some tx"
proof -
  from vnic_start_success [OF assms] obtain m s1 where
    "query_counters ops m d [VC_NETWORK_RX_COUNTER, VC_NETWORK_TX_COUNTER] (Map.empty, [])
       \<lparr>ops_state = s1, calls = calls w @ [GetVmMoid (instance_id inst)]\<rparr> = (Inr (stats, ids), w')"
    by blast
  from query_counters_dom [OF this] show ?thesis by auto
qed

lemma disk_start_stats:
  assumes "disk_start ops inst d w = (Inr (stats, ids), w')"
  shows "\<exists>rb rr wb wr. stats VC_DISK_READ_RATE_CNTR = Some rb
     \<and> stats VC_DISK_READ_REQUESTS_RATE_CNTR = Some rr
     \<and> stats VC_DISK_WRITE_RATE_CNTR = Some wb
     \<and> stats VC_DISK_WRITE_REQUESTS_RATE_CNTR = Some wr"
proof -
  from disk_start_success [OF assms] obtain m s1 where
    "query_counters ops m d disk_counters (Map.empty, [])
       \<lparr>ops_state = s1, calls = calls w @ [GetVmMoid (instance_id inst)]\<rparr> = (Inr (stats, ids), w')"
    by blast
  from query_counters_dom [OF this] show ?thesis by (auto simp add: disk_counters_def)
qed

text \<open>
  C9. In both fan-out inspections every call to the collaborator is made by the first
  \<^verbatim>\<open>next\<close>: the world in which the whole iteration ends is the world the first \<^verbatim>\<open>next\<close>
  left, so every counter resolution and every query precedes the first pair. The
  iteration always ends, and when it ends with an exception no pair has been yielded.
\<close>

theorem queries_precede_first_yield:
  "(\<exists>items e. consume (vnic_next ops) (inspect_vnic_rates inst d) w =
       Some (items, e, snd (snd (vnic_next ops (inspect_vnic_rates inst d) w)))
     \<and> (e \<noteq> None \<longrightarrow> items = []))
   \<and> (\<exists>items e. consume (disk_next ops) (inspect_disk_rates inst d) w =
       Some (items, e, snd (snd (disk_next ops (inspect_disk_rates inst d) w)))
     \<and> (e \<noteq> None \<longrightarrow> items = []))"
proof
  obtain r w' where st: "vnic_start ops inst d w = (r, w')"
    by (cases "vnic_start ops inst d w")
  show "\<exists>items e. consume (vnic_next ops) (inspect_vnic_rates inst d) w =
       Some (items, e, snd (snd (vnic_next ops (inspect_vnic_rates inst d) w)))
     \<and> (e \<noteq> None \<longrightarrow> items = [])"
  proof (cases r)
    case (Inl err)
    with st have n: "vnic_next ops (inspect_vnic_rates inst d) w = (Inl err, VnicFinished, w')"
      by (simp add: vnic_next_start_error)
    from consume_error [where nxt = "vnic_next ops", OF n] n show ?thesis by simp
  next
    case (Inr res)
    obtain stats ids where res: "res = (stats, ids)" by (cases res)
    from st Inr res have s: "vnic_start ops inst d w = (Inr (stats, ids), w')" by simp
    from vnic_start_stats [OF s] obtain rx tx where
      k: "stats VC_NETWORK_RX_COUNTER = Some rx" "stats VC_NETWORK_TX_COUNTER = Some tx"
      by blast
    have n: "vnic_next ops (inspect_vnic_rates inst d) w = vnic_next ops (VnicSuspended ids stats) w'"
      by (rule vnic_next_created [OF s])
    have "consume (vnic_next ops) (inspect_vnic_rates inst d) w =
          consume (vnic_next ops) (VnicSuspended ids stats) w'"
      by (rule consume_same_step [OF n])
    then show ?thesis
      by (simp add: consume_vnic_suspended [OF k] n vnic_next_suspended_world)
  qed
next
  obtain r w' where st: "disk_start ops inst d w = (r, w')"
    by (cases "disk_start ops inst d w")
  show "\<exists>items e. consume (disk_next ops) (inspect_disk_rates inst d) w =
       Some (items, e, snd (snd (disk_next ops (inspect_disk_rates inst d) w)))
     \<and> (e \<noteq> None \<longrightarrow> items = [])"
  proof (cases r)
    case (Inl err)
    with st have n: "disk_next ops (inspect_disk_rates inst d) w = (Inl err, DiskFinished, w')"
      by (simp add: disk_next_start_error)
    from consume_error [where nxt = "disk_next ops", OF n] n show ?thesis by simp
  next
    case (Inr res)
    obtain stats ids where res: "res = (stats, ids)" by (cases res)
    from st Inr res have s: "disk_start ops inst d w = (Inr (stats, ids), w')" by simp
    from disk_start_stats [OF s] obtain rb rr wb wr where
      k: "stats VC_DISK_READ_RATE_CNTR = Some rb"
         "stats VC_DISK_READ_REQUESTS_RATE_CNTR = Some rr"
         "stats VC_DISK_WRITE_RATE_CNTR = Some wb"
         "stats VC_DISK_WRITE_REQUESTS_RATE_CNTR = Some wr"
      by blast
    have n: "disk_next ops (inspect_disk_rates inst d) w = disk_next ops (DiskSuspended ids stats) w'"
      by (rule disk_next_created [OF s])
    have "consume (disk_next ops) (inspect_disk_rates inst d) w =
          consume (disk_next ops) (DiskSuspended ids stats) w'"
      by (rule consume_same_step [OF n])
    then show ?thesis
      by (simp add: consume_disk_suspended [OF k] n disk_next_suspended_world)
  qed
qed

subsection \<open>A complete fan-out\<close>

lemma vnic_start_answers:
  assumes "get_vm_moid ops (instance_id inst) (ops_state w) = (Inr (Some m), s1)"
    and "m \<noteq> []"
    and "answers ops m d [VC_NETWORK_RX_COUNTER, VC_NETWORK_TX_COUNTER] s1 =
           Some ([(i1, rx), (i2, tx)], s2)"
  shows "vnic_start ops inst d w =
    (Inr ([VC_NETWORK_RX_COUNTER \<mapsto> rx, VC_NETWORK_TX_COUNTER \<mapsto> tx],
          set_update (set_update [] (iterkeys rx)) (iterkeys tx)),
     \<lparr>ops_state = s2,
      calls = calls w @ [GetVmMoid (instance_id inst),
        GetPerfCounterId VC_NETWORK_RX_COUNTER, QueryVmDeviceStats m i1 d,
        GetPerfCounterId VC_NETWORK_TX_COUNTER, QueryVmDeviceStats m i2 d]\<rparr>)"
  using assms
  by (auto simp add: vnic_start_def action_defs call_defs
        split: prod.splits sum.splits option.splits)

lemma disk_start_answers:
  assumes "get_vm_moid ops (instance_id inst) (ops_state w) = (Inr (Some m), s1)"
    and "m \<noteq> []"
    and "answers ops m d disk_counters s1 =
           Some ([(i1, rb), (i2, rr), (i3, wb), (i4, wr)], s2)"
  shows "disk_start ops inst d w =
    (Inr ([VC_DISK_READ_RATE_CNTR \<mapsto> rb, VC_DISK_READ_REQUESTS_RATE_CNTR \<mapsto> rr,
           VC_DISK_WRITE_RATE_CNTR \<mapsto> wb, VC_DISK_WRITE_REQUESTS_RATE_CNTR \<mapsto> wr],
          set_update (set_update (set_update (set_update [] (iterkeys rb)) (iterkeys rr))
            (iterkeys wb)) (iterkeys wr)),
     \<lparr>ops_state = s2,
      calls = calls w @ [GetVmMoid (instance_id inst),
        GetPerfCounterId VC_DISK_READ_RATE_CNTR, QueryVmDeviceStats m i1 d,
        GetPerfCounterId VC_DISK_READ_REQUESTS_RATE_CNTR, QueryVmDeviceStats m i2 d,
        GetPerfCounterId VC_DISK_WRITE_RATE_CNTR, QueryVmDeviceStats m i3 d,
        GetPerfCounterId VC_DISK_WRITE_REQUESTS_RATE_CNTR, QueryVmDeviceStats m i4 d]\<rparr>)"
  using assms
  by (auto simp add: disk_start_def disk_counters_def action_defs call_defs
        split: prod.splits sum.splits option.splits)

lemma counters_distinct:
  "VC_NETWORK_RX_COUNTER \<noteq> VC_NETWORK_TX_COUNTER"
  "distinct disk_counters"
  by (simp_all add: disk_counters_def table_defs)

lemma vnic_run:
  assumes "get_vm_moid ops (instance_id inst) (ops_state w) = (Inr (Some m), s1)"
    and "m \<noteq> []"
    and "answers ops m d [VC_NETWORK_RX_COUNTER, VC_NETWORK_TX_COUNTER] s1 =
           Some ([(i1, rx), (i2, tx)], s2)"
  shows "\<exists>w'. consume (vnic_next ops) (inspect_vnic_rates inst d) w =
    Some (map (\<lambda>k. (\<lparr>name = k, mac = None, fref = None, parameters = None\<rparr>,
                     \<lparr>rx_bytes_rate = py_mul (dict_get rx k (PyInt 0)) Ki,
                      tx_bytes_rate = py_mul (dict_get tx k (PyInt 0)) Ki\<rparr>))
            (set_update (set_update [] (iterkeys rx)) (iterkeys tx)),
          None, w')"
proof -
  note s = vnic_start_answers [OF assms]
  have "consume (vnic_next ops) (inspect_vnic_rates inst d) w =
        consume (vnic_next ops)
          (VnicSuspended (set_update (set_update [] (iterkeys rx)) (iterkeys tx))
             [VC_NETWORK_RX_COUNTER \<mapsto> rx, VC_NETWORK_TX_COUNTER \<mapsto> tx])
          \<lparr>ops_state = s2,
           calls = calls w @ [GetVmMoid (instance_id inst),
             GetPerfCounterId VC_NETWORK_RX_COUNTER, QueryVmDeviceStats m i1 d,
             GetPerfCounterId VC_NETWORK_TX_COUNTER, QueryVmDeviceStats m i2 d]\<rparr>"
    by (rule consume_same_step [OF vnic_next_created [OF s]])
  also have "\<dots> = Some (map (\<lambda>k. (\<lparr>name = k, mac = None, fref = None, parameters = None\<rparr>,
                     \<lparr>rx_bytes_rate = py_mul (dict_get rx k (PyInt 0)) Ki,
                      tx_bytes_rate = py_mul (dict_get tx k (PyInt 0)) Ki\<rparr>))
            (set_update (set_update [] (iterkeys rx)) (iterkeys tx)),
          None, \<lparr>ops_state = s2,
           calls = calls w @ [GetVmMoid (instance_id inst),
             GetPerfCounterId VC_NETWORK_RX_COUNTER, QueryVmDeviceStats m i1 d,
             GetPerfCounterId VC_NETWORK_TX_COUNTER, QueryVmDeviceStats m i2 d]\<rparr>)"
    by (rule consume_vnic_suspended) (simp_all add: counters_distinct)
  finally show ?thesis by blast
qed

lemma disk_run:
  assumes "get_vm_moid ops (instance_id inst) (ops_state w) = (Inr (Some m), s1)"
    and "m \<noteq> []"
    and "answers ops m d disk_counters s1 =
           Some ([(i1, rb), (i2, rr), (i3, wb), (i4, wr)], s2)"
  shows "\<exists>w'. consume (disk_next ops) (inspect_disk_rates inst d) w =
    Some (map (\<lambda>k. (\<lparr>device = k\<rparr>,
                     \<lparr>read_bytes_rate = py_mul (dict_get rb k (PyInt 0)) Ki,
                      read_requests_rate = dict_get rr k (PyInt 0),
                      write_bytes_rate = py_mul (dict_get wb k (PyInt 0)) Ki,
                      write_requests_rate = dict_get wr k (PyInt 0)\<rparr>))
            (set_update (set_update (set_update (set_update [] (iterkeys rb)) (iterkeys rr))
               (iterkeys wb)) (iterkeys wr)),
          None, w')"
proof -
  note s = disk_start_answers [OF assms]
  note n = consume_same_step [OF disk_next_created [OF s]]
  have k: "[VC_DISK_READ_RATE_CNTR \<mapsto> rb, VC_DISK_READ_REQUESTS_RATE_CNTR \<mapsto> rr,
           VC_DISK_WRITE_RATE_CNTR \<mapsto> wb, VC_DISK_WRITE_REQUESTS_RATE_CNTR \<mapsto> wr]
             VC_DISK_READ_RATE_CNTR = Some rb"
    "[VC_DISK_READ_RATE_CNTR \<mapsto> rb, VC_DISK_READ_REQUESTS_RATE_CNTR \<mapsto> rr,
           VC_DISK_WRITE_RATE_CNTR \<mapsto> wb, VC_DISK_WRITE_REQUESTS_RATE_CNTR \<mapsto> wr]
             VC_DISK_READ_REQUESTS_RATE_CNTR = Some rr"
    "[VC_DISK_READ_RATE_CNTR \<mapsto> rb, VC_DISK_READ_REQUESTS_RATE_CNTR \<mapsto> rr,
           VC_DISK_WRITE_RATE_CNTR \<mapsto> wb, VC_DISK_WRITE_REQUESTS_RATE_CNTR \<mapsto> wr]
             VC_DISK_WRITE_RATE_CNTR = Some wb"
    "[VC_DISK_READ_RATE_CNTR \<mapsto> rb, VC_DISK_READ_REQUESTS_RATE_CNTR \<mapsto> rr,
           VC_DISK_WRITE_RATE_CNTR \<mapsto> wb, VC_DISK_WRITE_REQUESTS_RATE_CNTR \<mapsto> wr]
             VC_DISK_WRITE_REQUESTS_RATE_CNTR = Some wr"
    using counters_distinct(2) by (auto simp add: disk_counters_def)
  show ?thesis
    unfolding n by (simp add: consume_disk_suspended [OF k])
qed


lemma vnic_ids:
  "distinct (set_update (set_update [] (iterkeys rx)) (iterkeys tx))"
  "set (set_update (set_update [] (iterkeys rx)) (iterkeys tx)) = fst ` set rx \<union> fst ` set tx"
  by (simp_all add: distinct_set_update set_set_update set_iterkeys)

lemma disk_ids:
  "distinct (set_update (set_update (set_update (set_update [] (iterkeys rb)) (iterkeys rr))
               (iterkeys wb)) (iterkeys wr))"
  "set (set_update (set_update (set_update (set_update [] (iterkeys rb)) (iterkeys rr))
               (iterkeys wb)) (iterkeys wr)) =
     fst ` set rb \<union> fst ` set rr \<union> fst ` set wb \<union> fst ` set wr"
  by (simp_all add: distinct_set_update set_set_update set_iterkeys)

lemma py_mul_zero_Ki: "py_mul (PyInt 0) Ki = PyInt 0"
  by (simp add: Ki_def)


text \<open>
  C2. When the entity resolves to a non-empty moid and the collaborator returns the
  per-device maps \<open>rx\<close>, \<open>tx\<close> for the two network counters (\<open>rb\<close>, \<open>rr\<close>, \<open>wb\<close>, \<open>wr\<close> for
  the four disk counters), iterating the generator ends normally and yields exactly one
  pair for each device id in the union of the key sets of the maps; a field whose
  counter has no entry for the device is 0.
\<close>

theorem fanout_device_union:
  assumes "get_vm_moid ops (instance_id inst) (ops_state w) = (Inr (Some m), s1)"
    and "m \<noteq> []"
  shows
   "(answers ops m d [VC_NETWORK_RX_COUNTER, VC_NETWORK_TX_COUNTER] s1 =
       Some ([(i1, rx), (i2, tx)], s2) \<longrightarrow>
     (\<exists>items w'.
        consume (vnic_next ops) (inspect_vnic_rates inst d) w = Some (items, None, w')
      \<and> distinct (map (name \<circ> fst) items)
      \<and> set (map (name \<circ> fst) items) = fst ` set rx \<union> fst ` set tx
      \<and> (\<forall>(i, st) \<in> set items.
            (name i \<notin> fst ` set rx \<longrightarrow> rx_bytes_rate st = PyInt 0)
          \<and> (name i \<notin> fst ` set tx \<longrightarrow> tx_bytes_rate st = PyInt 0))))
  \<and> (answers ops m d disk_counters s1 =
       Some ([(j1, rb), (j2, rr), (j3, wb), (j4, wr)], s3) \<longrightarrow>
     (\<exists>items w'.
        consume (disk_next ops) (inspect_disk_rates inst d) w = Some (items, None, w')
      \<and> distinct (map (device \<circ> fst) items)
      \<and> set (map (device \<circ> fst) items) =
          fst ` set rb \<union> fst ` set rr \<union> fst ` set wb \<union> fst ` set wr
      \<and> (\<forall>(k, st) \<in> set items.
            (device k \<notin> fst ` set rb \<longrightarrow> read_bytes_rate st = PyInt 0)
          \<and> (device k \<notin> fst ` set rr \<longrightarrow> read_requests_rate st = PyInt 0)
          \<and> (device k \<notin> fst ` set wb \<longrightarrow> write_bytes_rate st = PyInt 0)
          \<and> (device k \<notin> fst ` set wr \<longrightarrow> write_requests_rate st = PyInt 0))))"
proof (intro conjI impI)
  assume a: "answers ops m d [VC_NETWORK_RX_COUNTER, VC_NETWORK_TX_COUNTER] s1 =
       Some ([(i1, rx), (i2, tx)], s2)"
  from vnic_run [OF assms a] obtain w' where
    c: "consume (vnic_next ops) (inspect_vnic_rates inst d) w =
      Some (map (\<lambda>k. (\<lparr>name = k, mac = None, fref = None, parameters = None\<rparr>,
                     \<lparr>rx_bytes_rate = py_mul (dict_get rx k (PyInt 0)) Ki,
                      tx_bytes_rate = py_mul (dict_get tx k (PyInt 0)) Ki\<rparr>))
            (set_update (set_update [] (iterkeys rx)) (iterkeys tx)), None, w')"
    by blast
  show "\<exists>items w'.
        consume (vnic_next ops) (inspect_vnic_rates inst d) w = Some (items, None, w')
      \<and> distinct (map (name \<circ> fst) items)
      \<and> set (map (name \<circ> fst) items) = fst ` set rx \<union> fst ` set tx
      \<and> (\<forall>(i, st) \<in> set items.
            (name i \<notin> fst ` set rx \<longrightarrow> rx_bytes_rate st = PyInt 0)
          \<and> (name i \<notin> fst ` set tx \<longrightarrow> tx_bytes_rate st = PyInt 0))"
    unfolding c
    by (intro exI conjI, rule refl)
       (auto simp add: o_def vnic_ids dict_get_missing py_mul_zero_Ki)
next
  assume a: "answers ops m d disk_counters s1 =
       Some ([(j1, rb), (j2, rr), (j3, wb), (j4, wr)], s3)"
  from disk_run [OF assms a] obtain w' where
    c: "consume (disk_next ops) (inspect_disk_rates inst d) w =
      Some (map (\<lambda>k. (\<lparr>device = k\<rparr>,
                     \<lparr>read_bytes_rate = py_mul (dict_get rb k (PyInt 0)) Ki,
                      read_requests_rate = dict_get rr k (PyInt 0),
                      write_bytes_rate = py_mul (dict_get wb k (PyInt 0)) Ki,
                      write_requests_rate = dict_get wr k (PyInt 0)\<rparr>))
            (set_update (set_update (set_update (set_update [] (iterkeys rb)) (iterkeys rr))
               (iterkeys wb)) (iterkeys wr)), None, w')"
    by blast
  show "\<exists>items w'.
        consume (disk_next ops) (inspect_disk_rates inst d) w = Some (items, None, w')
      \<and> distinct (map (device \<circ> fst) items)
      \<and> set (map (device \<circ> fst) items) =
          fst ` set rb \<union> fst ` set rr \<union> fst ` set wb \<union> fst ` set wr
      \<and> (\<forall>(k, st) \<in> set items.
            (device k \<notin> fst ` set rb \<longrightarrow> read_bytes_rate st = PyInt 0)
          \<and> (device k \<notin> fst ` set rr \<longrightarrow> read_requests_rate st = PyInt 0)
          \<and> (device k \<notin> fst ` set wb \<longrightarrow> write_bytes_rate st = PyInt 0)
          \<and> (device k \<notin> fst ` set wr \<longrightarrow> write_requests_rate st = PyInt 0))"
    unfolding c
    by (intro exI conjI, rule refl)
       (auto simp add: o_def disk_ids dict_get_missing py_mul_zero_Ki)
qed




text \<open>
  C8. Every pair yielded by \<^verbatim>\<open>inspect_vnic_rates\<close> has an interface descriptor whose
  \<open>name\<close> is a device id of the per-device maps (the one whose rates the pair carries)
  and whose \<open>mac\<close>, \<open>fref\<close> and \<open>parameters\<close> are \<open>None\<close>.
\<close>

theorem interface_descriptor:
  assumes "get_vm_moid ops (instance_id inst) (ops_state w) = (Inr (Some m), s1)"
    and "m \<noteq> []"
    and "answers ops m d [VC_NETWORK_RX_COUNTER, VC_NETWORK_TX_COUNTER] s1 =
           Some ([(i1, rx), (i2, tx)], s2)"
  shows "\<exists>items w'.
      consume (vnic_next ops) (inspect_vnic_rates inst d) w = Some (items, None, w')
    \<and> (\<forall>(i, st) \<in> set items.
          name i \<in> fst ` set rx \<union> fst ` set tx
        \<and> mac i = None \<and> fref i = None \<and> parameters i = None
        \<and> rx_bytes_rate st = py_mul (dict_get rx (name i) (PyInt 0)) Ki
        \<and> tx_bytes_rate st = py_mul (dict_get tx (name i) (PyInt 0)) Ki)"
proof -
  from vnic_run [OF assms] obtain w' where
    c: "consume (vnic_next ops) (inspect_vnic_rates inst d) w =
      Some (map (\<lambda>k. (\<lparr>name = k, mac = None, fref = None, parameters = None\<rparr>,
                     \<lparr>rx_bytes_rate = py_mul (dict_get rx k (PyInt 0)) Ki,
                      tx_bytes_rate = py_mul (dict_get tx k (PyInt 0)) Ki\<rparr>))
            (set_update (set_update [] (iterkeys rx)) (iterkeys tx)), None, w')"
    by blast
  show ?thesis
    unfolding c by (intro exI conjI, rule refl) (auto simp add: vnic_ids)
qed

subsection \<open>The order of the calls\<close>

lemma query_counters_calls_any:
  "query_counters ops m d cs acc w = (r, w') \<Longrightarrow>
   \<exists>ids ys zs. length ids = length cs \<and> calls w' = calls w @ ys \<and>
     ys @ zs = concat (map2 (\<lambda>c i. [GetPerfCounterId c, QueryVmDeviceStats m i d]) cs ids) \<and>
     ((\<exists>x. r = Inr x) \<longrightarrow> zs = [])"
proof (induction cs arbitrary: acc w)
  case Nil
  then show ?case by (simp add: returnM_def)
next
  case (Cons c cs)
  let ?pat = "\<lambda>cs ids. concat (map2 (\<lambda>c i. [GetPerfCounterId c, QueryVmDeviceStats m i d]) cs ids)"
  obtain stats ids where acc: "acc = (stats, ids)" by (cases acc)
  obtain r1 s1 where g: "get_perf_counter_id ops c (ops_state w) = (r1, s1)"
    by (cases "get_perf_counter_id ops c (ops_state w)")
  show ?case
  proof (cases r1)
    case (Inl e)
    with Cons.prems acc g have "r = Inl e" "calls w' = calls w @ [GetPerfCounterId c]"
      by (auto simp add: action_defs call_defs)
    then have "length (0 # replicate (length cs) 0) = length (c # cs) \<and>
       calls w' = calls w @ [GetPerfCounterId c] \<and>
       [GetPerfCounterId c] @ (QueryVmDeviceStats m 0 d # ?pat cs (replicate (length cs) 0)) =
         ?pat (c # cs) (0 # replicate (length cs) 0) \<and>
       ((\<exists>x. r = Inr x) \<longrightarrow> QueryVmDeviceStats m 0 d # ?pat cs (replicate (length cs) 0) = [])"
      by simp
    then show ?thesis by blast
  next
    case (Inr i)
    obtain r2 s2 where q: "query_vm_device_stats ops m i d s1 = (r2, s2)"
      by (cases "query_vm_device_stats ops m i d s1")
    show ?thesis
    proof (cases r2)
      case (Inl e)
      with Cons.prems acc g \<open>r1 = Inr i\<close> q have "r = Inl e"
        "calls w' = calls w @ [GetPerfCounterId c, QueryVmDeviceStats m i d]"
        by (auto simp add: action_defs call_defs)
      then have "length (i # replicate (length cs) 0) = length (c # cs) \<and>
         calls w' = calls w @ [GetPerfCounterId c, QueryVmDeviceStats m i d] \<and>
         [GetPerfCounterId c, QueryVmDeviceStats m i d] @ ?pat cs (replicate (length cs) 0) =
           ?pat (c # cs) (i # replicate (length cs) 0) \<and>
         ((\<exists>x. r = Inr x) \<longrightarrow> ?pat cs (replicate (length cs) 0) = [])"
        by simp
      then show ?thesis by blast
    next
      case (Inr mp)
      let ?w2 = "\<lparr>ops_state = s2,
                  calls = calls w @ [GetPerfCounterId c, QueryVmDeviceStats m i d]\<rparr>"
      have "query_counters ops m d cs (stats(c \<mapsto> mp), set_update ids (iterkeys mp)) ?w2 = (r, w')"
        using Cons.prems acc g \<open>r1 = Inr i\<close> q Inr by (simp add: action_defs call_defs)
      from Cons.IH [OF this] obtain js ys zs where
        j: "length js = length cs" "calls w' = calls ?w2 @ ys" "ys @ zs = ?pat cs js"
           "(\<exists>x. r = Inr x) \<longrightarrow> zs = []"
        by blast
      then have "length (i # js) = length (c # cs) \<and>
         calls w' = calls w @ ([GetPerfCounterId c, QueryVmDeviceStats m i d] @ ys) \<and>
         ([GetPerfCounterId c, QueryVmDeviceStats m i d] @ ys) @ zs = ?pat (c # cs) (i # js) \<and>
         ((\<exists>x. r = Inr x) \<longrightarrow> zs = [])"
        by simp
      then show ?thesis by blast
    qed
  qed
qed






subsection \<open>The two forms of the not-found test\<close>

lemma cpu_proceeds:
  assumes "get_vm_moid ops (instance_id inst) (ops_state w) = (Inr (Some m), s1)"
  shows "(\<exists>rest. calls (snd (inspect_cpu_util ops inst d w)) =
            calls w @ GetVmMoid (instance_id inst) #
              GetPerfCounterId VC_AVERAGE_CPU_CONSUMED_CNTR # rest)
    \<and> (\<forall>c s2. get_perf_counter_id ops VC_AVERAGE_CPU_CONSUMED_CNTR s1 = (Inr c, s2) \<longrightarrow>
          calls (snd (inspect_cpu_util ops inst d w)) =
            calls w @ [GetVmMoid (instance_id inst),
              GetPerfCounterId VC_AVERAGE_CPU_CONSUMED_CNTR, QueryVmAggregateStats m c d])"
  using assms
  by (auto simp add: inspect_cpu_util_def action_defs call_defs
        split: prod.splits sum.splits)

lemma memory_proceeds:
  assumes "get_vm_moid ops (instance_id inst) (ops_state w) = (Inr (Some m), s1)"
  shows "(\<exists>rest. calls (snd (inspect_memory_usage ops inst d w)) =
            calls w @ GetVmMoid (instance_id inst) #
              GetPerfCounterId VC_AVERAGE_MEMORY_CONSUMED_CNTR # rest)
    \<and> (\<forall>c s2. get_perf_counter_id ops VC_AVERAGE_MEMORY_CONSUMED_CNTR s1 = (Inr c, s2) \<longrightarrow>
          calls (snd (inspect_memory_usage ops inst d w)) =
            calls w @ [GetVmMoid (instance_id inst),
              GetPerfCounterId VC_AVERAGE_MEMORY_CONSUMED_CNTR, QueryVmAggregateStats m c d])"
  using assms
  by (auto simp add: inspect_memory_usage_def action_defs call_defs
        split: prod.splits sum.splits)

lemma query_counters_first_call:
  "\<exists>rest. calls (snd (query_counters ops m d (c # cs) acc w)) =
     calls w @ GetPerfCounterId c # rest"
proof -
  obtain stats ids where acc: "acc = (stats, ids)" by (cases acc)
  obtain r1 s1 where g: "get_perf_counter_id ops c (ops_state w) = (r1, s1)"
    by (cases "get_perf_counter_id ops c (ops_state w)")
  show ?thesis
  proof (cases r1)
    case (Inl e)
    with acc g show ?thesis by (simp add: action_defs call_defs)
  next
    case (Inr i)
    obtain r w' where q: "bindM (call_query_vm_device_stats ops m i d) (\<lambda>id_to_stats_map.
       query_counters ops m d cs
         (stats(c \<mapsto> id_to_stats_map), set_update ids (iterkeys id_to_stats_map)))
         \<lparr>ops_state = s1, calls = calls w @ [GetPerfCounterId c]\<rparr> = (r, w')"
      by (cases "bindM (call_query_vm_device_stats ops m i d) (\<lambda>id_to_stats_map.
       query_counters ops m d cs
         (stats(c \<mapsto> id_to_stats_map), set_update ids (iterkeys id_to_stats_map)))
         \<lparr>ops_state = s1, calls = calls w @ [GetPerfCounterId c]\<rparr>")
    obtain r2 s2 where q2: "query_vm_device_stats ops m i d s1 = (r2, s2)"
      by (cases "query_vm_device_stats ops m i d s1")
    have "\<exists>rest. calls w' = (calls w @ [GetPerfCounterId c]) @ rest"
    proof (cases r2)
      case (Inl e)
      with q q2 show ?thesis by (auto simp add: action_defs call_defs)
    next
      case (Inr mp)
      with q q2 have "query_counters ops m d cs (stats(c \<mapsto> mp), set_update ids (iterkeys mp))
         \<lparr>ops_state = s2,
          calls = calls w @ [GetPerfCounterId c, QueryVmDeviceStats m i d]\<rparr> = (r, w')"
        by (simp add: action_defs call_defs)
      from query_counters_calls_any [OF this] show ?thesis by auto
    qed
    with acc g Inr q show ?thesis by (simp add: action_defs call_get_perf_counter_id_def)
  qed
qed

lemma vnic_proceeds:
  assumes "get_vm_moid ops (instance_id inst) (ops_state w) = (Inr (Some m), s1)"
    and "m \<noteq> []"
  shows "\<exists>rest. calls (snd (snd (vnic_next ops (inspect_vnic_rates inst d) w))) =
     calls w @ GetVmMoid (instance_id inst) # GetPerfCounterId VC_NETWORK_RX_COUNTER # rest"
proof -
  let ?w1 = "\<lparr>ops_state = s1, calls = calls w @ [GetVmMoid (instance_id inst)]\<rparr>"
  have s: "vnic_start ops inst d w =
    query_counters ops m d [VC_NETWORK_RX_COUNTER, VC_NETWORK_TX_COUNTER] (Map.empty, []) ?w1"
    using assms by (simp add: vnic_start_def action_defs call_get_vm_moid_def)
  have n: "snd (snd (vnic_next ops (inspect_vnic_rates inst d) w)) =
           snd (vnic_start ops inst d w)"
    by (simp add: vnic_next_def inspect_vnic_rates_def split: prod.splits sum.splits)
  from query_counters_first_call [of ops m d VC_NETWORK_RX_COUNTER "[VC_NETWORK_TX_COUNTER]"
      "(Map.empty, [])" ?w1]
  show ?thesis unfolding n s by simp
qed

lemma disk_proceeds:
  assumes "get_vm_moid ops (instance_id inst) (ops_state w) = (Inr (Some m), s1)"
    and "m \<noteq> []"
  shows "\<exists>rest. calls (snd (snd (disk_next ops (inspect_disk_rates inst d) w))) =
     calls w @ GetVmMoid (instance_id inst) # GetPerfCounterId VC_DISK_READ_RATE_CNTR # rest"
proof -
  let ?w1 = "\<lparr>ops_state = s1, calls = calls w @ [GetVmMoid (instance_id inst)]\<rparr>"
  have s: "disk_start ops inst d w =
    query_counters ops m d disk_counters (Map.empty, []) ?w1"
    using assms by (simp add: disk_start_def action_defs call_get_vm_moid_def)
  have n: "snd (snd (disk_next ops (inspect_disk_rates inst d) w)) =
           snd (disk_start ops inst d w)"
    by (simp add: disk_next_def inspect_disk_rates_def split: prod.splits sum.splits)
  from query_counters_first_call [of ops m d VC_DISK_READ_RATE_CNTR
      "[VC_DISK_READ_REQUESTS_RATE_CNTR, VC_DISK_WRITE_RATE_CNTR, VC_DISK_WRITE_REQUESTS_RATE_CNTR]"
      "(Map.empty, [])" ?w1]
  show ?thesis unfolding n s disk_counters_def by simp
qed

text \<open>
  C10. The not-found test of the aggregate inspections is \<^verbatim>\<open>vm_moid is None\<close>, the test
  of the fan-out inspections is \<^verbatim>\<open>not vm_moid\<close>. When \<^verbatim>\<open>get_vm_moid\<close> returns \<^verbatim>\<open>None\<close>
  all four raise \<^verbatim>\<open>InstanceNotFoundException\<close>; when it returns the empty string the two
  generators still raise it, with no further call. For any moid that is not \<^verbatim>\<open>None\<close>,
  the empty string included, \<^verbatim>\<open>inspect_cpu_util\<close> and \<^verbatim>\<open>inspect_memory_usage\<close> go on to
  resolve their counter and, once it is resolved, query the statistics of that moid;
  the generators go on only for a non-empty moid.
\<close>

theorem not_found_check_differs:
  "(get_vm_moid ops (instance_id inst) (ops_state w) = (Inr None, s1) \<longrightarrow>
       inspect_cpu_util ops inst d w =
         (Inl (not_found inst),
          \<lparr>ops_state = s1, calls = calls w @ [GetVmMoid (instance_id inst)]\<rparr>)
     \<and> inspect_memory_usage ops inst d w =
         (Inl (not_found inst),
          \<lparr>ops_state = s1, calls = calls w @ [GetVmMoid (instance_id inst)]\<rparr>)
     \<and> vnic_next ops (inspect_vnic_rates inst d) w =
         (Inl (not_found inst), VnicFinished,
          \<lparr>ops_state = s1, calls = calls w @ [GetVmMoid (instance_id inst)]\<rparr>)
     \<and> disk_next ops (inspect_disk_rates inst d) w =
         (Inl (not_found inst), DiskFinished,
          \<lparr>ops_state = s1, calls = calls w @ [GetVmMoid (instance_id inst)]\<rparr>))
 \<and> (get_vm_moid ops (instance_id inst) (ops_state w) = (Inr (Some []), s1) \<longrightarrow>
       vnic_next ops (inspect_vnic_rates inst d) w =
         (Inl (not_found inst), VnicFinished,
          \<lparr>ops_state = s1, calls = calls w @ [GetVmMoid (instance_id inst)]\<rparr>)
     \<and> disk_next ops (inspect_disk_rates inst d) w =
         (Inl (not_found inst), DiskFinished,
          \<lparr>ops_state = s1, calls = calls w @ [GetVmMoid (instance_id inst)]\<rparr>))
 \<and> (get_vm_moid ops (instance_id inst) (ops_state w) = (Inr (Some m), s1) \<longrightarrow>
       (\<exists>rest. calls (snd (inspect_cpu_util ops inst d w)) =
            calls w @ GetVmMoid (instance_id inst) #
              GetPerfCounterId VC_AVERAGE_CPU_CONSUMED_CNTR # rest)
     \<and> (\<forall>c s2. get_perf_counter_id ops VC_AVERAGE_CPU_CONSUMED_CNTR s1 = (Inr c, s2) \<longrightarrow>
          calls (snd (inspect_cpu_util ops inst d w)) =
            calls w @ [GetVmMoid (instance_id inst),
              GetPerfCounterId VC_AVERAGE_CPU_CONSUMED_CNTR, QueryVmAggregateStats m c d])
     \<and> (\<exists>rest. calls (snd (inspect_memory_usage ops inst d w)) =
            calls w @ GetVmMoid (instance_id inst) #
              GetPerfCounterId VC_AVERAGE_MEMORY_CONSUMED_CNTR # rest)
     \<and> (\<forall>c s2. get_perf_counter_id ops VC_AVERAGE_MEMORY_CONSUMED_CNTR s1 = (Inr c, s2) \<longrightarrow>
          calls (snd (inspect_memory_usage ops inst d w)) =
            calls w @ [GetVmMoid (instance_id inst),
              GetPerfCounterId VC_AVERAGE_MEMORY_CONSUMED_CNTR, QueryVmAggregateStats m c d]))
 \<and> (get_vm_moid ops (instance_id inst) (ops_state w) = (Inr (Some m), s1) \<and> m \<noteq> [] \<longrightarrow>
       (\<exists>rest. calls (snd (snd (vnic_next ops (inspect_vnic_rates inst d) w))) =
            calls w @ GetVmMoid (instance_id inst) #
              GetPerfCounterId VC_NETWORK_RX_COUNTER # rest)
     \<and> (\<exists>rest. calls (snd (snd (disk_next ops (inspect_disk_rates inst d) w))) =
            calls w @ GetVmMoid (instance_id inst) #
              GetPerfCounterId VC_DISK_READ_RATE_CNTR # rest))"
proof (intro conjI impI)
  assume a: "get_vm_moid ops (instance_id inst) (ops_state w) = (Inr None, s1)"
  show "inspect_cpu_util ops inst d w =
         (Inl (not_found inst),
          \<lparr>ops_state = s1, calls = calls w @ [GetVmMoid (instance_id inst)]\<rparr>)"
    by (rule not_found_cpu [OF a])
  show "inspect_memory_usage ops inst d w =
         (Inl (not_found inst),
          \<lparr>ops_state = s1, calls = calls w @ [GetVmMoid (instance_id inst)]\<rparr>)"
    by (rule not_found_memory [OF a])
  show "vnic_next ops (inspect_vnic_rates inst d) w =
         (Inl (not_found inst), VnicFinished,
          \<lparr>ops_state = s1, calls = calls w @ [GetVmMoid (instance_id inst)]\<rparr>)"
    by (rule vnic_next_start_error, rule falsy_vnic_start [OF a]) simp
  show "disk_next ops (inspect_disk_rates inst d) w =
         (Inl (not_found inst), DiskFinished,
          \<lparr>ops_state = s1, calls = calls w @ [GetVmMoid (instance_id inst)]\<rparr>)"
    by (rule disk_next_start_error, rule falsy_disk_start [OF a]) simp
next
  assume a: "get_vm_moid ops (instance_id inst) (ops_state w) = (Inr (Some []), s1)"
  show "vnic_next ops (inspect_vnic_rates inst d) w =
         (Inl (not_found inst), VnicFinished,
          \<lparr>ops_state = s1, calls = calls w @ [GetVmMoid (instance_id inst)]\<rparr>)"
    by (rule vnic_next_start_error, rule falsy_vnic_start [OF a]) simp
  show "disk_next ops (inspect_disk_rates inst d) w =
         (Inl (not_found inst), DiskFinished,
          \<lparr>ops_state = s1, calls = calls w @ [GetVmMoid (instance_id inst)]\<rparr>)"
    by (rule disk_next_start_error, rule falsy_disk_start [OF a]) simp
next
  assume a: "get_vm_moid ops (instance_id inst) (ops_state w) = (Inr (Some m), s1)"
  from cpu_proceeds [OF a, of d]
  show "\<exists>rest. calls (snd (inspect_cpu_util ops inst d w)) =
            calls w @ GetVmMoid (instance_id inst) #
              GetPerfCounterId VC_AVERAGE_CPU_CONSUMED_CNTR # rest"
    by (rule conjunct1)
  from cpu_proceeds [OF a, of d]
  show "\<forall>c s2. get_perf_counter_id ops VC_AVERAGE_CPU_CONSUMED_CNTR s1 = (Inr c, s2) \<longrightarrow>
          calls (snd (inspect_cpu_util ops inst d w)) =
            calls w @ [GetVmMoid (instance_id inst),
              GetPerfCounterId VC_AVERAGE_CPU_CONSUMED_CNTR, QueryVmAggregateStats m c d]"
    by (rule conjunct2)
  from memory_proceeds [OF a, of d]
  show "\<exists>rest. calls (snd (inspect_memory_usage ops inst d w)) =
            calls w @ GetVmMoid (instance_id inst) #
              GetPerfCounterId VC_AVERAGE_MEMORY_CONSUMED_CNTR # rest"
    by (rule conjunct1)
  from memory_proceeds [OF a, of d]
  show "\<forall>c s2. get_perf_counter_id ops VC_AVERAGE_MEMORY_CONSUMED_CNTR s1 = (Inr c, s2) \<longrightarrow>
          calls (snd (inspect_memory_usage ops inst d w)) =
            calls w @ [GetVmMoid (instance_id inst),
              GetPerfCounterId VC_AVERAGE_MEMORY_CONSUMED_CNTR, QueryVmAggregateStats m c d]"
    by (rule conjunct2)
next
  assume a: "get_vm_moid ops (instance_id inst) (ops_state w) = (Inr (Some m), s1) \<and> m \<noteq> []"
  show "\<exists>rest. calls (snd (snd (vnic_next ops (inspect_vnic_rates inst d) w))) =
            calls w @ GetVmMoid (instance_id inst) #
              GetPerfCounterId VC_NETWORK_RX_COUNTER # rest"
    by (rule vnic_proceeds [OF conjunct1 [OF a] conjunct2 [OF a]])
  show "\<exists>rest. calls (snd (snd (disk_next ops (inspect_disk_rates inst d) w))) =
            calls w @ GetVmMoid (instance_id inst) #
              GetPerfCounterId VC_DISK_READ_RATE_CNTR # rest"
    by (rule disk_proceeds [OF conjunct1 [OF a] conjunct2 [OF a]])
qed

section \<open>The scenarios of the spec\<close>

text \<open>
  The theorems above, used on the table-driven collaborator: each of their hypotheses
  is discharged on the scenario's data.
\<close>

lemma scenario_vm2:
  "get_vm_moid scenario_ops (instance_id \<lparr>instance_id = ''vm-2''\<rparr>) (ops_state world0) =
     (Inr (Some ''vm-2-moid''), 1)"
  by (simp add: scenario_ops_def table_ops_def world0_def)

lemma scenario_network:
  "answers scenario_ops ''vm-2-moid'' None [VC_NETWORK_RX_COUNTER, VC_NETWORK_TX_COUNTER] 1 =
     Some ([(3, scenario_rx), (4, scenario_tx)], 5)"
  by (simp add: scenario_ops_def table_defs)

lemma scenario_disk:
  "answers scenario_ops ''vm-2-moid'' None disk_counters 1 =
     Some ([(5, scenario_rb), (6, scenario_rr), (7, scenario_wb), (8, scenario_wr)], 9)"
  by (simp add: scenario_ops_def disk_counters_def table_defs)

theorem fanout_device_union_witness:
  "(\<exists>items w'.
        consume (vnic_next scenario_ops) (inspect_vnic_rates \<lparr>instance_id = ''vm-2''\<rparr> None)
          world0 = Some (items, None, w')
      \<and> distinct (map (name \<circ> fst) items)
      \<and> set (map (name \<circ> fst) items) = fst ` set scenario_rx \<union> fst ` set scenario_tx
      \<and> (\<forall>(i, st) \<in> set items.
            (name i \<notin> fst ` set scenario_rx \<longrightarrow> rx_bytes_rate st = PyInt 0)
          \<and> (name i \<notin> fst ` set scenario_tx \<longrightarrow> tx_bytes_rate st = PyInt 0)))
  \<and> (\<exists>items w'.
        consume (disk_next scenario_ops) (inspect_disk_rates \<lparr>instance_id = ''vm-2''\<rparr> None)
          world0 = Some (items, None, w')
      \<and> distinct (map (device \<circ> fst) items)
      \<and> set (map (device \<circ> fst) items) =
          fst ` set scenario_rb \<union> fst ` set scenario_rr \<union> fst ` set scenario_wb \<union>
          fst ` set scenario_wr
      \<and> (\<forall>(k, st) \<in> set items.
            (device k \<notin> fst ` set scenario_rb \<longrightarrow> read_bytes_rate st = PyInt 0)
          \<and> (device k \<notin> fst ` set scenario_rr \<longrightarrow> read_requests_rate st = PyInt 0)
          \<and> (device k \<notin> fst ` set scenario_wb \<longrightarrow> write_bytes_rate st = PyInt 0)
          \<and> (device k \<notin> fst ` set scenario_wr \<longrightarrow> write_requests_rate st = PyInt 0)))
  \<and> fst ` set scenario_rx \<union> fst ` set scenario_tx = {''nic-0'', ''nic-1''}
  \<and> fst ` set scenario_rb \<union> fst ` set scenario_rr \<union> fst ` set scenario_wb \<union>
      fst ` set scenario_wr = {''d1'', ''d2''}"
proof -
  have moid: "''vm-2-moid'' \<noteq> []" by simp
  note t = fanout_device_union [OF scenario_vm2 moid]
  have keys: "fst ` set scenario_rx \<union> fst ` set scenario_tx = {''nic-0'', ''nic-1''}"
    "fst ` set scenario_rb \<union> fst ` set scenario_rr \<union> fst ` set scenario_wb \<union>
      fst ` set scenario_wr = {''d1'', ''d2''}"
    by (auto simp add: scenario_rx_def scenario_tx_def scenario_rb_def scenario_rr_def
          scenario_wb_def scenario_wr_def)
  show ?thesis
    by (intro conjI t [THEN conjunct1, THEN mp, OF scenario_network]
          t [THEN conjunct2, THEN mp, OF scenario_disk] keys)
qed


theorem interface_descriptor_witness:
  "\<exists>items w'.
      consume (vnic_next scenario_ops) (inspect_vnic_rates \<lparr>instance_id = ''vm-2''\<rparr> None)
        world0 = Some (items, None, w')
    \<and> (\<forall>(i, st) \<in> set items.
          name i \<in> fst ` set scenario_rx \<union> fst ` set scenario_tx
        \<and> mac i = None \<and> fref i = None \<and> parameters i = None
        \<and> rx_bytes_rate st = py_mul (dict_get scenario_rx (name i) (PyInt 0)) Ki
        \<and> tx_bytes_rate st = py_mul (dict_get scenario_tx (name i) (PyInt 0)) Ki)"
proof -
  have moid: "''vm-2-moid'' \<noteq> []" by simp
  show ?thesis by (rule interface_descriptor [OF scenario_vm2 moid scenario_network])
qed


lemma failing_vnic_next:
  "vnic_next failing_ops (inspect_vnic_rates \<lparr>instance_id = ''vm-2''\<rparr> None) world0 =
     (Inl (OpsError ''no statistics''), VnicFinished,
      \<lparr>ops_state = 5,
       calls = [GetVmMoid ''vm-2'',
         GetPerfCounterId VC_NETWORK_RX_COUNTER, QueryVmDeviceStats ''vm-2-moid'' 3 None,
         GetPerfCounterId VC_NETWORK_TX_COUNTER, QueryVmDeviceStats ''vm-2-moid'' 4 None]\<rparr>)"
  by (simp add: vnic_next_def inspect_vnic_rates_def vnic_start_def action_defs call_defs
        failing_ops_def table_defs)

lemma failing_disk_next:
  "disk_next failing_ops (inspect_disk_rates \<lparr>instance_id = ''vm-2''\<rparr> None) world0 =
     (Inl (OpsError ''no statistics''), DiskFinished,
      \<lparr>ops_state = 7,
       calls = [GetVmMoid ''vm-2'',
         GetPerfCounterId VC_DISK_READ_RATE_CNTR, QueryVmDeviceStats ''vm-2-moid'' 5 None,
         GetPerfCounterId VC_DISK_READ_REQUESTS_RATE_CNTR, QueryVmDeviceStats ''vm-2-moid'' 6 None,
         GetPerfCounterId VC_DISK_WRITE_RATE_CNTR, QueryVmDeviceStats ''vm-2-moid'' 7 None]\<rparr>)"
  by (simp add: disk_next_def inspect_disk_rates_def disk_start_def disk_counters_def
        action_defs call_defs failing_ops_def table_defs)

theorem queries_precede_first_yield_witness:
  "(\<exists>items e.
      consume (vnic_next failing_ops) (inspect_vnic_rates \<lparr>instance_id = ''vm-2''\<rparr> None) world0 =
        Some (items, e,
          \<lparr>ops_state = 5,
           calls = [GetVmMoid ''vm-2'',
             GetPerfCounterId VC_NETWORK_RX_COUNTER, QueryVmDeviceStats ''vm-2-moid'' 3 None,
             GetPerfCounterId VC_NETWORK_TX_COUNTER, QueryVmDeviceStats ''vm-2-moid'' 4 None]\<rparr>)
      \<and> e = Some (OpsError ''no statistics'') \<and> items = [])
   \<and> (\<exists>items e.
      consume (disk_next failing_ops) (inspect_disk_rates \<lparr>instance_id = ''vm-2''\<rparr> None) world0 =
        Some (items, e, snd (snd (disk_next failing_ops
                (inspect_disk_rates \<lparr>instance_id = ''vm-2''\<rparr> None) world0)))
      \<and> e = Some (OpsError ''no statistics'') \<and> items = [])"
proof -
  note t = queries_precede_first_yield
    [of failing_ops "\<lparr>instance_id = ''vm-2''\<rparr>" None world0]
  from t obtain items e where
    v: "consume (vnic_next failing_ops) (inspect_vnic_rates \<lparr>instance_id = ''vm-2''\<rparr> None) world0 =
        Some (items, e, snd (snd (vnic_next failing_ops
                (inspect_vnic_rates \<lparr>instance_id = ''vm-2''\<rparr> None) world0)))"
    and vi: "e \<noteq> None \<longrightarrow> items = []"
    by (elim conjE exE)
  from t obtain items' e' where
    k: "consume (disk_next failing_ops) (inspect_disk_rates \<lparr>instance_id = ''vm-2''\<rparr> None) world0 =
        Some (items', e', snd (snd (disk_next failing_ops
                (inspect_disk_rates \<lparr>instance_id = ''vm-2''\<rparr> None) world0)))"
    and ki: "e' \<noteq> None \<longrightarrow> items' = []"
    by (elim conjE exE)
  have ve: "e = Some (OpsError ''no statistics'')"
    using v consume_error [where nxt = "vnic_next failing_ops", OF failing_vnic_next] by simp
  have ke: "e' = Some (OpsError ''no statistics'')"
    using k consume_error [where nxt = "disk_next failing_ops", OF failing_disk_next] by simp
  from ve vi have "items = []" by simp
  moreover from ke ki have "items' = []" by simp
  ultimately show ?thesis using v k ve ke by (simp add: failing_vnic_next)
qed





lemma scenario_vm0:
  "get_vm_moid scenario_ops (instance_id \<lparr>instance_id = ''vm-0''\<rparr>) (ops_state world0) =
     (Inr (Some []), 1)"
  by (simp add: scenario_ops_def table_ops_def world0_def)

lemma scenario_cpu_counter:
  "get_perf_counter_id scenario_ops VC_AVERAGE_CPU_CONSUMED_CNTR 1 = (Inr 1, 2)"
  by (simp add: scenario_ops_def table_defs)

theorem not_found_check_differs_witness:
  "vnic_next scenario_ops (inspect_vnic_rates \<lparr>instance_id = ''vm-0''\<rparr> None) world0 =
     (Inl (InstanceNotFoundException ''VM vm-0 not found in VMware Vsphere''), VnicFinished,
      \<lparr>ops_state = 1, calls = [GetVmMoid ''vm-0'']\<rparr>)
 \<and> disk_next scenario_ops (inspect_disk_rates \<lparr>instance_id = ''vm-0''\<rparr> None) world0 =
     (Inl (InstanceNotFoundException ''VM vm-0 not found in VMware Vsphere''), DiskFinished,
      \<lparr>ops_state = 1, calls = [GetVmMoid ''vm-0'']\<rparr>)
 \<and> calls (snd (inspect_cpu_util scenario_ops \<lparr>instance_id = ''vm-0''\<rparr> None world0)) =
     [GetVmMoid ''vm-0'', GetPerfCounterId VC_AVERAGE_CPU_CONSUMED_CNTR,
      QueryVmAggregateStats [] 1 None]"
proof -
  note t = not_found_check_differs
    [of scenario_ops "\<lparr>instance_id = ''vm-0''\<rparr>" world0 1 None "[]"]
  note falsy = t [THEN conjunct2, THEN conjunct1, THEN mp, OF scenario_vm0]
  note truthy = t [THEN conjunct2, THEN conjunct2, THEN conjunct1, THEN mp, OF scenario_vm0]
  from truthy have "\<forall>c s2. get_perf_counter_id scenario_ops VC_AVERAGE_CPU_CONSUMED_CNTR 1 = (Inr c, s2) \<longrightarrow>
          calls (snd (inspect_cpu_util scenario_ops \<lparr>instance_id = ''vm-0''\<rparr> None world0)) =
            calls world0 @ [GetVmMoid (instance_id \<lparr>instance_id = ''vm-0''\<rparr>),
              GetPerfCounterId VC_AVERAGE_CPU_CONSUMED_CNTR, QueryVmAggregateStats [] c None]"
    by (elim conjE)
  with scenario_cpu_counter have
    "calls (snd (inspect_cpu_util scenario_ops \<lparr>instance_id = ''vm-0''\<rparr> None world0)) =
            calls world0 @ [GetVmMoid (instance_id \<lparr>instance_id = ''vm-0''\<rparr>),
              GetPerfCounterId VC_AVERAGE_CPU_CONSUMED_CNTR, QueryVmAggregateStats [] 1 None]"
    by blast
  with falsy show ?thesis by (simp add: world0_def not_found_def)
qed

text \<open>
  The two scenarios as the spec gives them: the network fan-out of vm-2 yields nic-0
  with 102400 and 51200 bytes per second and nic-1 with 0 and 20480; a float raw CPU
  value of 4567 gives 45.67.
\<close>

lemma scenario_vnic_rates:
  "\<exists>items w'.
     consume (vnic_next scenario_ops) (inspect_vnic_rates \<lparr>instance_id = ''vm-2''\<rparr> None)
       world0 = Some (items, None, w')
   \<and> set items =
       {(\<lparr>name = ''nic-0'', mac = None, fref = None, parameters = None\<rparr>,
         \<lparr>rx_bytes_rate = PyInt 102400, tx_bytes_rate = PyInt 51200\<rparr>),
        (\<lparr>name = ''nic-1'', mac = None, fref = None, parameters = None\<rparr>,
         \<lparr>rx_bytes_rate = PyInt 0, tx_bytes_rate = PyInt 20480\<rparr>)}"
proof -
  have moid: "''vm-2-moid'' \<noteq> []" by simp
  from vnic_run [OF scenario_vm2 moid scenario_network] show ?thesis
    by (auto simp add: scenario_rx_def scenario_tx_def set_update_def iterkeys_def
          dict_get_def Ki_def)
qed

lemma scenario_cpu_util:
  "fst (inspect_cpu_util scenario_ops \<lparr>instance_id = ''vm-1''\<rparr> None world0) =
     Inr \<lparr>util = PyFloat (4567 / 100)\<rparr>"
  by (simp add: inspect_cpu_util_def action_defs call_defs scenario_ops_def table_defs)

end
